theory Spec2Isabelle
  imports Main "HOL-Library.Word"
begin

unbundle bit_operations_syntax

section \<open>The portable vocabulary of filesys.h\<close>

text \<open>
  \<^verbatim>\<open>enum class FSResult : int8_t\<close>: the closed set of result codes every operation of the
  two adapters returns.
\<close>

datatype FSResult =
    OK
  | ERROR_IO
  | ERROR_CORRUPT
  | ERROR_NO_ENT
  | ERROR_EXIST
  | ERROR_NOT_DIR
  | ERROR_IS_DIR
  | ERROR_NO_EMPTY
  | ERROR_BAD_FILE
  | ERROR_FB_BIG
  | ERROR_NO_SPC
  | ERROR_NO_MEM
  | ERROR_INVALID
  | ERROR_NOT_MOUNTED
  | ERROR_NOT_SUPPORTED

text \<open>
  \<^verbatim>\<open>enum class OpenMode : uint8_t\<close> is a bit set; \<^verbatim>\<open>operator|\<close> combines its members on
  the underlying byte, so an open mode is any \<open>8 word\<close>.
\<close>

type_synonym OpenMode = "8 word"

definition READ :: OpenMode where "READ = 0x01"
definition WRITE :: OpenMode where "WRITE = 0x02"
definition CREATE :: OpenMode where "CREATE = 0x04"
definition EXCL :: OpenMode where "EXCL = 0x08"
definition TRUNC :: OpenMode where "TRUNC = 0x10"
definition APPEND :: OpenMode where "APPEND = 0x20"

text \<open>
  \<^verbatim>\<open>enum class SeekOrigin : uint8_t\<close>. Both \<^verbatim>\<open>seek\<close> methods switch over it with a
  \<^verbatim>\<open>default\<close> branch, so the origin is modelled by its underlying byte.
\<close>

type_synonym SeekOrigin = "8 word"

definition SET :: SeekOrigin where "SET = 0"
definition CUR :: SeekOrigin where "CUR = 1"
definition END :: SeekOrigin where "END = 2"

definition MAX_FILENAME_LENGTH :: nat where "MAX_FILENAME_LENGTH = 64"

text \<open>
  \<^verbatim>\<open>struct FileInfo\<close>. The character array \<^verbatim>\<open>name\<close> is read as the C string it holds.
  The field \<^verbatim>\<open>size\<close> is called \<open>info_size\<close> here.
\<close>

record FileInfo =
  name :: string
  info_size :: "32 word"
  is_directory :: bool
  modified_time :: "32 word"

definition FileInfo_ctor :: FileInfo where
  "FileInfo_ctor = \<lparr>name = [], info_size = 0, is_directory = False, modified_time = 0\<rparr>"

text \<open>
  \<^verbatim>\<open>struct FileHandle\<close> and \<^verbatim>\<open>struct DirHandle\<close> have the same layout: the open flag, the
  owning adapter (\<^verbatim>\<open>IFileSystemImpl*\<close>, \<open>None\<close> for \<^verbatim>\<open>nullptr\<close>, \<open>Some a\<close> for the adapter
  object at address \<open>a\<close>), and a union holding the native file or directory object of
  whichever library opened it (the type parameter).
\<close>

record 'n Handle =
  is_open :: bool
  fs_impl :: "nat option"
  native :: 'n

type_synonym 'f FileHandle = "'f Handle"
type_synonym 'd DirHandle = "'d Handle"

text \<open>The constructors \<^verbatim>\<open>FileHandle()\<close> and \<^verbatim>\<open>DirHandle()\<close>; \<open>n\<close> is what the union's
  memory holds.\<close>

definition Handle_ctor :: "'n \<Rightarrow> 'n Handle" where
  "Handle_ctor n = \<lparr>is_open = False, fs_impl = None, native = n\<rparr>"

type_synonym bytes = "8 word list"

section \<open>The two libraries, as their headers present them\<close>

text \<open>
  \<^verbatim>\<open>lfs.h\<close> and \<^verbatim>\<open>ff.h\<close> belong to the wrapped libraries and are not part of the
  adapter sources. The constants the adapters name are therefore parameters of the model:
  a record per header. The adapters only compare error codes, so these are \<open>int\<close>;
  littlefs open flags are \<^verbatim>\<open>int\<close> bit masks; FatFs mode flags and attributes are
  \<^verbatim>\<open>BYTE\<close> values.
\<close>

record lfs_h =
  LFS_ERR_OK :: int
  LFS_ERR_IO :: int
  LFS_ERR_CORRUPT :: int
  LFS_ERR_NOENT :: int
  LFS_ERR_EXIST :: int
  LFS_ERR_NOTDIR :: int
  LFS_ERR_ISDIR :: int
  LFS_ERR_NOTEMPTY :: int
  LFS_ERR_BADF :: int
  LFS_ERR_FBIG :: int
  LFS_ERR_NOSPC :: int
  LFS_ERR_NOMEM :: int
  LFS_ERR_INVAL :: int
  LFS_O_RDONLY :: int
  LFS_O_WRONLY :: int
  LFS_O_RDWR :: int
  LFS_O_CREAT :: int
  LFS_O_EXCL :: int
  LFS_O_TRUNC :: int
  LFS_O_APPEND :: int
  LFS_SEEK_SET :: int
  LFS_SEEK_CUR :: int
  LFS_SEEK_END :: int
  LFS_TYPE_DIR :: int

record ff_h =
  FR_OK :: int
  FR_DISK_ERR :: int
  FR_INT_ERR :: int
  FR_NOT_READY :: int
  FR_NO_FILE :: int
  FR_NO_PATH :: int
  FR_INVALID_NAME :: int
  FR_DENIED :: int
  FR_EXIST :: int
  FR_INVALID_OBJECT :: int
  FR_WRITE_PROTECTED :: int
  FR_INVALID_DRIVE :: int
  FR_NOT_ENABLED :: int
  FR_NO_FILESYSTEM :: int
  FR_MKFS_ABORTED :: int
  FR_TIMEOUT :: int
  FR_LOCKED :: int
  FR_NOT_ENOUGH_CORE :: int
  FR_TOO_MANY_OPEN_FILES :: int
  FR_INVALID_PARAMETER :: int
  FA_READ :: "8 word"
  FA_WRITE :: "8 word"
  FA_OPEN_EXISTING :: "8 word"
  FA_CREATE_NEW :: "8 word"
  FA_CREATE_ALWAYS :: "8 word"
  FA_OPEN_APPEND :: "8 word"
  AM_DIR :: "8 word"

text \<open>
  The values the released headers give: \<^verbatim>\<open>enum lfs_error\<close>, \<^verbatim>\<open>enum lfs_open_flags\<close>,
  \<^verbatim>\<open>enum lfs_whence_flags\<close> and \<^verbatim>\<open>LFS_TYPE_DIR\<close> of littlefs v2, and \<^verbatim>\<open>FRESULT\<close>,
  the \<^verbatim>\<open>FA_\<close> mode flags and \<^verbatim>\<open>AM_DIR\<close> of FatFs. They serve as the concrete headers
  at which the general statements are instantiated.
\<close>

definition littlefs_h :: lfs_h where
  "littlefs_h = \<lparr>
     LFS_ERR_OK = 0, LFS_ERR_IO = -5, LFS_ERR_CORRUPT = -84, LFS_ERR_NOENT = -2,
     LFS_ERR_EXIST = -17, LFS_ERR_NOTDIR = -20, LFS_ERR_ISDIR = -21, LFS_ERR_NOTEMPTY = -39,
     LFS_ERR_BADF = -9, LFS_ERR_FBIG = -27, LFS_ERR_NOSPC = -28, LFS_ERR_NOMEM = -12,
     LFS_ERR_INVAL = -22,
     LFS_O_RDONLY = 1, LFS_O_WRONLY = 2, LFS_O_RDWR = 3, LFS_O_CREAT = 0x0100,
     LFS_O_EXCL = 0x0200, LFS_O_TRUNC = 0x0400, LFS_O_APPEND = 0x0800,
     LFS_SEEK_SET = 0, LFS_SEEK_CUR = 1, LFS_SEEK_END = 2,
     LFS_TYPE_DIR = 2 \<rparr>"

definition fatfs_h :: ff_h where
  "fatfs_h = \<lparr>
     FR_OK = 0, FR_DISK_ERR = 1, FR_INT_ERR = 2, FR_NOT_READY = 3, FR_NO_FILE = 4,
     FR_NO_PATH = 5, FR_INVALID_NAME = 6, FR_DENIED = 7, FR_EXIST = 8,
     FR_INVALID_OBJECT = 9, FR_WRITE_PROTECTED = 10, FR_INVALID_DRIVE = 11,
     FR_NOT_ENABLED = 12, FR_NO_FILESYSTEM = 13, FR_MKFS_ABORTED = 14, FR_TIMEOUT = 15,
     FR_LOCKED = 16, FR_NOT_ENOUGH_CORE = 17, FR_TOO_MANY_OPEN_FILES = 18,
     FR_INVALID_PARAMETER = 19,
     FA_READ = 0x01, FA_WRITE = 0x02, FA_OPEN_EXISTING = 0x00, FA_CREATE_NEW = 0x04,
     FA_CREATE_ALWAYS = 0x08, FA_OPEN_APPEND = 0x30,
     AM_DIR = 0x10 \<rparr>"

section \<open>Error translation\<close>

text \<open>\<^verbatim>\<open>LittleFSImpl::convert_lfs_error\<close>: the \<^verbatim>\<open>switch\<close>, label by label, with its
  \<^verbatim>\<open>default\<close>.\<close>

definition LittleFSImpl_convert_lfs_error :: "lfs_h \<Rightarrow> int \<Rightarrow> FSResult" where
  "LittleFSImpl_convert_lfs_error K lfs_error =
     (if lfs_error = LFS_ERR_OK K then OK
      else if lfs_error = LFS_ERR_IO K then ERROR_IO
      else if lfs_error = LFS_ERR_CORRUPT K then ERROR_CORRUPT
      else if lfs_error = LFS_ERR_NOENT K then ERROR_NO_ENT
      else if lfs_error = LFS_ERR_EXIST K then ERROR_EXIST
      else if lfs_error = LFS_ERR_NOTDIR K then ERROR_NOT_DIR
      else if lfs_error = LFS_ERR_ISDIR K then ERROR_IS_DIR
      else if lfs_error = LFS_ERR_NOTEMPTY K then ERROR_NO_EMPTY
      else if lfs_error = LFS_ERR_BADF K then ERROR_BAD_FILE
      else if lfs_error = LFS_ERR_FBIG K then ERROR_FB_BIG
      else if lfs_error = LFS_ERR_NOSPC K then ERROR_NO_SPC
      else if lfs_error = LFS_ERR_NOMEM K then ERROR_NO_MEM
      else if lfs_error = LFS_ERR_INVAL K then ERROR_INVALID
      else ERROR_IO)"

text \<open>\<^verbatim>\<open>FatFSImpl::convert_fatfs_error\<close>.\<close>

definition FatFSImpl_convert_fatfs_error :: "ff_h \<Rightarrow> int \<Rightarrow> FSResult" where
  "FatFSImpl_convert_fatfs_error K fresult =
     (if fresult = FR_OK K then OK
      else if fresult = FR_DISK_ERR K then ERROR_IO
      else if fresult = FR_INT_ERR K then ERROR_CORRUPT
      else if fresult = FR_NOT_READY K then ERROR_IO
      else if fresult = FR_NO_FILE K then ERROR_NO_ENT
      else if fresult = FR_NO_PATH K then ERROR_NO_ENT
      else if fresult = FR_INVALID_NAME K then ERROR_INVALID
      else if fresult = FR_DENIED K then ERROR_INVALID
      else if fresult = FR_EXIST K then ERROR_EXIST
      else if fresult = FR_INVALID_OBJECT K then ERROR_BAD_FILE
      else if fresult = FR_WRITE_PROTECTED K then ERROR_INVALID
      else if fresult = FR_INVALID_DRIVE K then ERROR_NOT_MOUNTED
      else if fresult = FR_NOT_ENABLED K then ERROR_NOT_MOUNTED
      else if fresult = FR_NO_FILESYSTEM K then ERROR_CORRUPT
      else if fresult = FR_MKFS_ABORTED K then ERROR_IO
      else if fresult = FR_TIMEOUT K then ERROR_IO
      else if fresult = FR_LOCKED K then ERROR_INVALID
      else if fresult = FR_NOT_ENOUGH_CORE K then ERROR_NO_MEM
      else if fresult = FR_TOO_MANY_OPEN_FILES K then ERROR_NO_MEM
      else if fresult = FR_INVALID_PARAMETER K then ERROR_INVALID
      else ERROR_IO)"

text \<open>
  Each \<^verbatim>\<open>switch\<close> read as a table from case label to result. The case labels of a
  \<^verbatim>\<open>switch\<close> are pairwise different, or the adapter does not compile: every header the
  adapters are built against satisfies \<open>lfs_labels_distinct\<close> and \<open>ff_labels_distinct\<close>.
\<close>

definition lfs_error_table :: "lfs_h \<Rightarrow> (int \<times> FSResult) list" where
  "lfs_error_table K =
     [(LFS_ERR_OK K, OK), (LFS_ERR_IO K, ERROR_IO), (LFS_ERR_CORRUPT K, ERROR_CORRUPT),
      (LFS_ERR_NOENT K, ERROR_NO_ENT), (LFS_ERR_EXIST K, ERROR_EXIST),
      (LFS_ERR_NOTDIR K, ERROR_NOT_DIR), (LFS_ERR_ISDIR K, ERROR_IS_DIR),
      (LFS_ERR_NOTEMPTY K, ERROR_NO_EMPTY), (LFS_ERR_BADF K, ERROR_BAD_FILE),
      (LFS_ERR_FBIG K, ERROR_FB_BIG), (LFS_ERR_NOSPC K, ERROR_NO_SPC),
      (LFS_ERR_NOMEM K, ERROR_NO_MEM), (LFS_ERR_INVAL K, ERROR_INVALID)]"

definition ff_error_table :: "ff_h \<Rightarrow> (int \<times> FSResult) list" where
  "ff_error_table K =
     [(FR_OK K, OK), (FR_DISK_ERR K, ERROR_IO), (FR_INT_ERR K, ERROR_CORRUPT),
      (FR_NOT_READY K, ERROR_IO), (FR_NO_FILE K, ERROR_NO_ENT), (FR_NO_PATH K, ERROR_NO_ENT),
      (FR_INVALID_NAME K, ERROR_INVALID), (FR_DENIED K, ERROR_INVALID),
      (FR_EXIST K, ERROR_EXIST), (FR_INVALID_OBJECT K, ERROR_BAD_FILE),
      (FR_WRITE_PROTECTED K, ERROR_INVALID), (FR_INVALID_DRIVE K, ERROR_NOT_MOUNTED),
      (FR_NOT_ENABLED K, ERROR_NOT_MOUNTED), (FR_NO_FILESYSTEM K, ERROR_CORRUPT),
      (FR_MKFS_ABORTED K, ERROR_IO), (FR_TIMEOUT K, ERROR_IO), (FR_LOCKED K, ERROR_INVALID),
      (FR_NOT_ENOUGH_CORE K, ERROR_NO_MEM), (FR_TOO_MANY_OPEN_FILES K, ERROR_NO_MEM),
      (FR_INVALID_PARAMETER K, ERROR_INVALID)]"

definition lfs_labels_distinct :: "lfs_h \<Rightarrow> bool" where
  "lfs_labels_distinct K = distinct (map fst (lfs_error_table K))"

definition ff_labels_distinct :: "ff_h \<Rightarrow> bool" where
  "ff_labels_distinct K = distinct (map fst (ff_error_table K))"

section \<open>Open-mode translation\<close>

text \<open>
  \<^verbatim>\<open>LittleFSImpl::convert_open_mode\<close> builds \<^verbatim>\<open>int lfs_flags\<close> and returns
  \<^verbatim>\<open>static_cast<uint8_t>(lfs_flags)\<close>. \<open>LittleFSImpl_lfs_flags\<close> is the value of the local
  variable at the \<^verbatim>\<open>return\<close>; the function's result is its low byte.
\<close>

definition LittleFSImpl_lfs_flags :: "lfs_h \<Rightarrow> OpenMode \<Rightarrow> int" where
  "LittleFSImpl_lfs_flags K mode_bits =
     (let read_flag = (mode_bits AND READ \<noteq> 0);
          write_flag = (mode_bits AND WRITE \<noteq> 0);
          create_flag = (mode_bits AND CREATE \<noteq> 0);
          trunc_flag = (mode_bits AND TRUNC \<noteq> 0);
          append_flag = (mode_bits AND APPEND \<noteq> 0);
          excl_flag = (mode_bits AND EXCL \<noteq> 0);
          f0 = (0 :: int);
          f1 = (if read_flag then f0 OR LFS_O_RDONLY K else f0);
          f2 = (if write_flag
                then (if read_flag then (f1 AND NOT (LFS_O_RDONLY K)) OR LFS_O_RDWR K
                      else f1 OR LFS_O_WRONLY K)
                else f1);
          f3 = (if create_flag
                then (if excl_flag then (f2 OR LFS_O_CREAT K) OR LFS_O_EXCL K
                      else f2 OR LFS_O_CREAT K)
                else f2);
          f4 = (if trunc_flag then f3 OR LFS_O_TRUNC K else f3);
          f5 = (if append_flag then f4 OR LFS_O_APPEND K else f4)
      in f5)"

definition LittleFSImpl_convert_open_mode :: "lfs_h \<Rightarrow> OpenMode \<Rightarrow> 8 word" where
  "LittleFSImpl_convert_open_mode K mode = word_of_int (LittleFSImpl_lfs_flags K mode)"




text \<open>
  \<^verbatim>\<open>FatFSImpl::convert_open_mode\<close>. The source tests the write bit against
  \<^verbatim>\<open>OpenMode::write\<close>, an enumerator that does not exist; it is read as
  \<^verbatim>\<open>OpenMode::WRITE\<close>. The local \<^verbatim>\<open>trunc_flag\<close> is computed and never used.
\<close>

definition FatFSImpl_convert_open_mode :: "ff_h \<Rightarrow> OpenMode \<Rightarrow> 8 word" where
  "FatFSImpl_convert_open_mode K mode_bits =
     (let read_flag = (mode_bits AND READ \<noteq> 0);
          write_flag = (mode_bits AND WRITE \<noteq> 0);
          create_flag = (mode_bits AND CREATE \<noteq> 0);
          append_flag = (mode_bits AND APPEND \<noteq> 0);
          excl_flag = (mode_bits AND EXCL \<noteq> 0);
          m0 = (0 :: 8 word);
          m1 = (if read_flag \<and> \<not> write_flag then FA_READ K
                else if write_flag \<and> \<not> read_flag then FA_WRITE K
                else if read_flag \<and> write_flag then FA_READ K OR FA_WRITE K
                else m0);
          m2 = (if create_flag
                then (if excl_flag then m1 OR FA_CREATE_NEW K else m1 OR FA_CREATE_ALWAYS K)
                else if write_flag then m1 OR FA_OPEN_EXISTING K
                else m1);
          m3 = (if append_flag then m2 OR FA_OPEN_APPEND K else m2)
      in m3)"

section \<open>The flash-log adapter (LittleFSImpl)\<close>

text \<open>
  The littlefs functions the adapter calls are parameters as well: a record of functions,
  each taking the native objects the call is passed (the \<^verbatim>\<open>lfs_t\<close> of the adapter, type
  \<open>'l\<close>; the \<^verbatim>\<open>lfs_file_t\<close> or \<^verbatim>\<open>lfs_dir_t\<close> inside a handle, types \<open>'f\<close> and \<open>'d\<close>) and
  returning the status together with the objects as the call leaves them. Nothing is
  assumed about what the library does. A statement that holds for every such record, and
  returns the objects unchanged, says that no native call was made.
\<close>

record lfs_config =
  block_size :: "32 word"
  block_count :: "32 word"

text \<open>\<^verbatim>\<open>struct lfs_info\<close> with its fields \<^verbatim>\<open>type\<close>, \<^verbatim>\<open>size\<close> and \<^verbatim>\<open>name\<close>.\<close>

record lfs_info =
  li_type :: int
  li_size :: "32 word"
  li_name :: string

record ('l, 'f, 'd) lfs_lib =
  lfs_mount :: "'l \<Rightarrow> lfs_config \<Rightarrow> int \<times> 'l"
  lfs_format :: "'l \<Rightarrow> lfs_config \<Rightarrow> int \<times> 'l"
  lfs_unmount :: "'l \<Rightarrow> int \<times> 'l"
  lfs_file_open :: "'l \<Rightarrow> 'f \<Rightarrow> string \<Rightarrow> int \<Rightarrow> int \<times> 'l \<times> 'f"
  lfs_file_close :: "'l \<Rightarrow> 'f \<Rightarrow> int \<times> 'l \<times> 'f"
  lfs_file_read :: "'l \<Rightarrow> 'f \<Rightarrow> bytes \<Rightarrow> nat \<Rightarrow> int \<times> 'l \<times> 'f \<times> bytes"
  lfs_file_write :: "'l \<Rightarrow> 'f \<Rightarrow> bytes \<Rightarrow> nat \<Rightarrow> int \<times> 'l \<times> 'f"
  lfs_file_seek :: "'l \<Rightarrow> 'f \<Rightarrow> 32 word \<Rightarrow> int \<Rightarrow> int \<times> 'l \<times> 'f"
  lfs_file_tell :: "'l \<Rightarrow> 'f \<Rightarrow> int \<times> 'l \<times> 'f"
  lfs_file_sync :: "'l \<Rightarrow> 'f \<Rightarrow> int \<times> 'l \<times> 'f"
  lfs_file_truncate :: "'l \<Rightarrow> 'f \<Rightarrow> 32 word \<Rightarrow> int \<times> 'l \<times> 'f"
  lfs_remove :: "'l \<Rightarrow> string \<Rightarrow> int \<times> 'l"
  lfs_rename :: "'l \<Rightarrow> string \<Rightarrow> string \<Rightarrow> int \<times> 'l"
  lfs_stat :: "'l \<Rightarrow> string \<Rightarrow> int \<times> 'l \<times> lfs_info"
  lfs_mkdir :: "'l \<Rightarrow> string \<Rightarrow> int \<times> 'l"
  lfs_dir_open :: "'l \<Rightarrow> 'd \<Rightarrow> string \<Rightarrow> int \<times> 'l \<times> 'd"
  lfs_dir_close :: "'l \<Rightarrow> 'd \<Rightarrow> int \<times> 'l \<times> 'd"
  lfs_dir_read :: "'l \<Rightarrow> 'd \<Rightarrow> int \<times> 'l \<times> 'd \<times> lfs_info"
  lfs_dir_rewind :: "'l \<Rightarrow> 'd \<Rightarrow> int \<times> 'l \<times> 'd"
  lfs_fs_size :: "'l \<Rightarrow> int \<times> 'l"

text \<open>The data members \<^verbatim>\<open>lfs_\<close>, \<^verbatim>\<open>config_\<close> and \<^verbatim>\<open>mounted_\<close> of
  \<^verbatim>\<open>class LittleFSImpl\<close>, written without the trailing underscore; \<^verbatim>\<open>config_\<close> is a
  pointer, \<open>None\<close> when null.\<close>

record 'l LittleFSImpl =
  lfs :: 'l
  config :: "lfs_config option"
  mounted :: bool

text \<open>
  The constructor: \<open>raw\<close> is what the memory of \<^verbatim>\<open>lfs_\<close> holds before construction,
  \<open>zeroed\<close> the all-zero object \<^verbatim>\<open>memset\<close> leaves. With a null configuration the
  constructor returns before the \<^verbatim>\<open>memset\<close>.
\<close>

definition LittleFSImpl_ctor :: "'l \<Rightarrow> 'l \<Rightarrow> lfs_config option \<Rightarrow> 'l LittleFSImpl" where
  "LittleFSImpl_ctor raw zeroed cfg =
     \<lparr>lfs = (if cfg = None then raw else zeroed), config = cfg, mounted = False\<rparr>"

definition LittleFSImpl_mount ::
  "lfs_h \<Rightarrow> ('l, 'f, 'd) lfs_lib \<Rightarrow> 'l LittleFSImpl \<Rightarrow> FSResult \<times> 'l LittleFSImpl" where
  "LittleFSImpl_mount K L st =
     (if mounted st then (OK, st)
      else case config st of
        None \<Rightarrow> (ERROR_INVALID, st)
      | Some cfg \<Rightarrow>
          (case lfs_mount L (lfs st) cfg of (res, l1) \<Rightarrow>
             if res = LFS_ERR_OK K then (OK, st\<lparr>lfs := l1, mounted := True\<rparr>)
             else if res = LFS_ERR_CORRUPT K then
               (case lfs_format L l1 cfg of (res2, l2) \<Rightarrow>
                  if res2 = LFS_ERR_OK K then
                    (case lfs_mount L l2 cfg of (res3, l3) \<Rightarrow>
                       if res3 = LFS_ERR_OK K then (OK, st\<lparr>lfs := l3, mounted := True\<rparr>)
                       else (LittleFSImpl_convert_lfs_error K res3, st\<lparr>lfs := l3\<rparr>))
                  else (LittleFSImpl_convert_lfs_error K res2, st\<lparr>lfs := l2\<rparr>))
             else (LittleFSImpl_convert_lfs_error K res, st\<lparr>lfs := l1\<rparr>)))"

definition LittleFSImpl_unmount ::
  "lfs_h \<Rightarrow> ('l, 'f, 'd) lfs_lib \<Rightarrow> 'l LittleFSImpl \<Rightarrow> FSResult \<times> 'l LittleFSImpl" where
  "LittleFSImpl_unmount K L st =
     (if \<not> mounted st then (OK, st)
      else case lfs_unmount L (lfs st) of (res, l1) \<Rightarrow>
        (LittleFSImpl_convert_lfs_error K res, st\<lparr>lfs := l1, mounted := False\<rparr>))"

text \<open>The \<^verbatim>\<open>uint8_t\<close> that \<^verbatim>\<open>convert_open_mode\<close> returns is widened back to \<^verbatim>\<open>int\<close> for
  the native call.\<close>

definition LittleFSImpl_open ::
  "lfs_h \<Rightarrow> ('l, 'f, 'd) lfs_lib \<Rightarrow> nat \<Rightarrow> 'l LittleFSImpl \<Rightarrow> 'f FileHandle \<Rightarrow> string \<Rightarrow> OpenMode
   \<Rightarrow> FSResult \<times> 'l LittleFSImpl \<times> 'f FileHandle" where
  "LittleFSImpl_open K L this st handle path mode =
     (if \<not> mounted st then (ERROR_NOT_MOUNTED, st, handle)
      else if is_open handle then (ERROR_BAD_FILE, st, handle)
      else let lfs_flags = uint (LittleFSImpl_convert_open_mode K mode) in
        case lfs_file_open L (lfs st) (native handle) path lfs_flags of (res, l1, f1) \<Rightarrow>
          if res = LFS_ERR_OK K
          then (OK, st\<lparr>lfs := l1\<rparr>, \<lparr>is_open = True, fs_impl = Some this, native = f1\<rparr>)
          else (LittleFSImpl_convert_lfs_error K res, st\<lparr>lfs := l1\<rparr>, handle\<lparr>native := f1\<rparr>))"

definition LittleFSImpl_close ::
  "lfs_h \<Rightarrow> ('l, 'f, 'd) lfs_lib \<Rightarrow> nat \<Rightarrow> 'l LittleFSImpl \<Rightarrow> 'f FileHandle
   \<Rightarrow> FSResult \<times> 'l LittleFSImpl \<times> 'f FileHandle" where
  "LittleFSImpl_close K L this st handle =
     (if \<not> is_open handle \<or> fs_impl handle \<noteq> Some this then (ERROR_BAD_FILE, st, handle)
      else case lfs_file_close L (lfs st) (native handle) of (res, l1, f1) \<Rightarrow>
        (LittleFSImpl_convert_lfs_error K res, st\<lparr>lfs := l1\<rparr>,
         \<lparr>is_open = False, fs_impl = None, native = f1\<rparr>))"

text \<open>\<^verbatim>\<open>read\<close> and \<^verbatim>\<open>write\<close>: the caller's buffer and the reference parameter
  \<^verbatim>\<open>bytes_read\<close> / \<^verbatim>\<open>bytes_written\<close> go in and come out.\<close>

definition LittleFSImpl_read ::
  "lfs_h \<Rightarrow> ('l, 'f, 'd) lfs_lib \<Rightarrow> nat \<Rightarrow> 'l LittleFSImpl \<Rightarrow> 'f FileHandle \<Rightarrow> bytes \<Rightarrow> nat \<Rightarrow> nat
   \<Rightarrow> FSResult \<times> 'l LittleFSImpl \<times> 'f FileHandle \<times> bytes \<times> nat" where
  "LittleFSImpl_read K L this st handle buffer sz bytes_read =
     (if \<not> is_open handle \<or> fs_impl handle \<noteq> Some this
      then (ERROR_BAD_FILE, st, handle, buffer, bytes_read)
      else case lfs_file_read L (lfs st) (native handle) buffer sz of (res, l1, f1, buffer1) \<Rightarrow>
        if res \<ge> 0 then (OK, st\<lparr>lfs := l1\<rparr>, handle\<lparr>native := f1\<rparr>, buffer1, nat res)
        else (LittleFSImpl_convert_lfs_error K res, st\<lparr>lfs := l1\<rparr>, handle\<lparr>native := f1\<rparr>,
              buffer1, 0))"

definition LittleFSImpl_write ::
  "lfs_h \<Rightarrow> ('l, 'f, 'd) lfs_lib \<Rightarrow> nat \<Rightarrow> 'l LittleFSImpl \<Rightarrow> 'f FileHandle \<Rightarrow> bytes \<Rightarrow> nat \<Rightarrow> nat
   \<Rightarrow> FSResult \<times> 'l LittleFSImpl \<times> 'f FileHandle \<times> nat" where
  "LittleFSImpl_write K L this st handle buffer sz bytes_written =
     (if \<not> is_open handle \<or> fs_impl handle \<noteq> Some this
      then (ERROR_BAD_FILE, st, handle, bytes_written)
      else case lfs_file_write L (lfs st) (native handle) buffer sz of (res, l1, f1) \<Rightarrow>
        if res \<ge> 0 then (OK, st\<lparr>lfs := l1\<rparr>, handle\<lparr>native := f1\<rparr>, nat res)
        else (LittleFSImpl_convert_lfs_error K res, st\<lparr>lfs := l1\<rparr>, handle\<lparr>native := f1\<rparr>, 0))"

text \<open>\<^verbatim>\<open>seek\<close>: the \<^verbatim>\<open>int32_t\<close> offset is a \<open>32 word\<close> read as two's complement.\<close>

definition LittleFSImpl_seek ::
  "lfs_h \<Rightarrow> ('l, 'f, 'd) lfs_lib \<Rightarrow> nat \<Rightarrow> 'l LittleFSImpl \<Rightarrow> 'f FileHandle \<Rightarrow> 32 word \<Rightarrow> SeekOrigin
   \<Rightarrow> FSResult \<times> 'l LittleFSImpl \<times> 'f FileHandle" where
  "LittleFSImpl_seek K L this st handle offset origin =
     (if \<not> is_open handle \<or> fs_impl handle \<noteq> Some this then (ERROR_BAD_FILE, st, handle)
      else case (if origin = SET then Some (LFS_SEEK_SET K)
                 else if origin = CUR then Some (LFS_SEEK_CUR K)
                 else if origin = END then Some (LFS_SEEK_END K)
                 else None) of
        None \<Rightarrow> (ERROR_INVALID, st, handle)
      | Some whence \<Rightarrow>
          (case lfs_file_seek L (lfs st) (native handle) offset whence of (res, l1, f1) \<Rightarrow>
             if res \<ge> 0 then (OK, st\<lparr>lfs := l1\<rparr>, handle\<lparr>native := f1\<rparr>)
             else (LittleFSImpl_convert_lfs_error K res, st\<lparr>lfs := l1\<rparr>,
                   handle\<lparr>native := f1\<rparr>)))"

definition LittleFSImpl_tell ::
  "lfs_h \<Rightarrow> ('l, 'f, 'd) lfs_lib \<Rightarrow> nat \<Rightarrow> 'l LittleFSImpl \<Rightarrow> 'f FileHandle \<Rightarrow> 32 word
   \<Rightarrow> FSResult \<times> 'l LittleFSImpl \<times> 'f FileHandle \<times> 32 word" where
  "LittleFSImpl_tell K L this st handle position =
     (if \<not> is_open handle \<or> fs_impl handle \<noteq> Some this
      then (ERROR_BAD_FILE, st, handle, position)
      else case lfs_file_tell L (lfs st) (native handle) of (res, l1, f1) \<Rightarrow>
        if res \<ge> 0 then (OK, st\<lparr>lfs := l1\<rparr>, handle\<lparr>native := f1\<rparr>, word_of_int res)
        else (LittleFSImpl_convert_lfs_error K res, st\<lparr>lfs := l1\<rparr>, handle\<lparr>native := f1\<rparr>,
              position))"

definition LittleFSImpl_sync ::
  "lfs_h \<Rightarrow> ('l, 'f, 'd) lfs_lib \<Rightarrow> nat \<Rightarrow> 'l LittleFSImpl \<Rightarrow> 'f FileHandle
   \<Rightarrow> FSResult \<times> 'l LittleFSImpl \<times> 'f FileHandle" where
  "LittleFSImpl_sync K L this st handle =
     (if \<not> is_open handle \<or> fs_impl handle \<noteq> Some this then (ERROR_BAD_FILE, st, handle)
      else case lfs_file_sync L (lfs st) (native handle) of (res, l1, f1) \<Rightarrow>
        (LittleFSImpl_convert_lfs_error K res, st\<lparr>lfs := l1\<rparr>, handle\<lparr>native := f1\<rparr>))"

definition LittleFSImpl_truncate ::
  "lfs_h \<Rightarrow> ('l, 'f, 'd) lfs_lib \<Rightarrow> nat \<Rightarrow> 'l LittleFSImpl \<Rightarrow> 'f FileHandle \<Rightarrow> 32 word
   \<Rightarrow> FSResult \<times> 'l LittleFSImpl \<times> 'f FileHandle" where
  "LittleFSImpl_truncate K L this st handle sz =
     (if \<not> is_open handle \<or> fs_impl handle \<noteq> Some this then (ERROR_BAD_FILE, st, handle)
      else case lfs_file_truncate L (lfs st) (native handle) sz of (res, l1, f1) \<Rightarrow>
        (LittleFSImpl_convert_lfs_error K res, st\<lparr>lfs := l1\<rparr>, handle\<lparr>native := f1\<rparr>))"

definition LittleFSImpl_remove ::
  "lfs_h \<Rightarrow> ('l, 'f, 'd) lfs_lib \<Rightarrow> 'l LittleFSImpl \<Rightarrow> string \<Rightarrow> FSResult \<times> 'l LittleFSImpl" where
  "LittleFSImpl_remove K L st path =
     (if \<not> mounted st then (ERROR_NOT_MOUNTED, st)
      else case lfs_remove L (lfs st) path of (res, l1) \<Rightarrow>
        (LittleFSImpl_convert_lfs_error K res, st\<lparr>lfs := l1\<rparr>))"

definition LittleFSImpl_rename ::
  "lfs_h \<Rightarrow> ('l, 'f, 'd) lfs_lib \<Rightarrow> 'l LittleFSImpl \<Rightarrow> string \<Rightarrow> string
   \<Rightarrow> FSResult \<times> 'l LittleFSImpl" where
  "LittleFSImpl_rename K L st old_path new_path =
     (if \<not> mounted st then (ERROR_NOT_MOUNTED, st)
      else case lfs_rename L (lfs st) old_path new_path of (res, l1) \<Rightarrow>
        (LittleFSImpl_convert_lfs_error K res, st\<lparr>lfs := l1\<rparr>))"

text \<open>
  \<^verbatim>\<open>stat\<close> copies the part of \<^verbatim>\<open>path\<close> after its last \<^verbatim>\<open>'/'\<close> (all of it when there is
  none) with \<^verbatim>\<open>strncpy\<close> bounded by \<^verbatim>\<open>MAX_FILENAME_LENGTH - 1\<close>.
\<close>

definition after_last_slash :: "string \<Rightarrow> string" where
  "after_last_slash path = rev (takeWhile (\<lambda>c. c \<noteq> CHR ''/'') (rev path))"

definition LittleFSImpl_stat ::
  "lfs_h \<Rightarrow> ('l, 'f, 'd) lfs_lib \<Rightarrow> 'l LittleFSImpl \<Rightarrow> string \<Rightarrow> FileInfo
   \<Rightarrow> FSResult \<times> 'l LittleFSImpl \<times> FileInfo" where
  "LittleFSImpl_stat K L st path info =
     (if \<not> mounted st then (ERROR_NOT_MOUNTED, st, info)
      else case lfs_stat L (lfs st) path of (res, l1, li) \<Rightarrow>
        if res = LFS_ERR_OK K
        then (OK, st\<lparr>lfs := l1\<rparr>,
              \<lparr>name = take (MAX_FILENAME_LENGTH - 1) (after_last_slash path),
               info_size = li_size li,
               is_directory = (li_type li = LFS_TYPE_DIR K),
               modified_time = 0\<rparr>)
        else (LittleFSImpl_convert_lfs_error K res, st\<lparr>lfs := l1\<rparr>, info))"

definition LittleFSImpl_mkdir ::
  "lfs_h \<Rightarrow> ('l, 'f, 'd) lfs_lib \<Rightarrow> 'l LittleFSImpl \<Rightarrow> string \<Rightarrow> FSResult \<times> 'l LittleFSImpl" where
  "LittleFSImpl_mkdir K L st path =
     (if \<not> mounted st then (ERROR_NOT_MOUNTED, st)
      else case lfs_mkdir L (lfs st) path of (res, l1) \<Rightarrow>
        (LittleFSImpl_convert_lfs_error K res, st\<lparr>lfs := l1\<rparr>))"

definition LittleFSImpl_rmdir ::
  "lfs_h \<Rightarrow> ('l, 'f, 'd) lfs_lib \<Rightarrow> 'l LittleFSImpl \<Rightarrow> string \<Rightarrow> FSResult \<times> 'l LittleFSImpl" where
  "LittleFSImpl_rmdir K L st path =
     (if \<not> mounted st then (ERROR_NOT_MOUNTED, st)
      else case lfs_remove L (lfs st) path of (res, l1) \<Rightarrow>
        (LittleFSImpl_convert_lfs_error K res, st\<lparr>lfs := l1\<rparr>))"

definition LittleFSImpl_opendir ::
  "lfs_h \<Rightarrow> ('l, 'f, 'd) lfs_lib \<Rightarrow> nat \<Rightarrow> 'l LittleFSImpl \<Rightarrow> 'd DirHandle \<Rightarrow> string
   \<Rightarrow> FSResult \<times> 'l LittleFSImpl \<times> 'd DirHandle" where
  "LittleFSImpl_opendir K L this st handle path =
     (if \<not> mounted st then (ERROR_NOT_MOUNTED, st, handle)
      else if is_open handle then (ERROR_BAD_FILE, st, handle)
      else case lfs_dir_open L (lfs st) (native handle) path of (res, l1, d1) \<Rightarrow>
        if res = LFS_ERR_OK K
        then (OK, st\<lparr>lfs := l1\<rparr>, \<lparr>is_open = True, fs_impl = Some this, native = d1\<rparr>)
        else (LittleFSImpl_convert_lfs_error K res, st\<lparr>lfs := l1\<rparr>, handle\<lparr>native := d1\<rparr>))"

definition LittleFSImpl_closedir ::
  "lfs_h \<Rightarrow> ('l, 'f, 'd) lfs_lib \<Rightarrow> nat \<Rightarrow> 'l LittleFSImpl \<Rightarrow> 'd DirHandle
   \<Rightarrow> FSResult \<times> 'l LittleFSImpl \<times> 'd DirHandle" where
  "LittleFSImpl_closedir K L this st handle =
     (if \<not> is_open handle \<or> fs_impl handle \<noteq> Some this then (ERROR_BAD_FILE, st, handle)
      else case lfs_dir_close L (lfs st) (native handle) of (res, l1, d1) \<Rightarrow>
        (LittleFSImpl_convert_lfs_error K res, st\<lparr>lfs := l1\<rparr>,
         \<lparr>is_open = False, fs_impl = None, native = d1\<rparr>))"

definition LittleFSImpl_readdir ::
  "lfs_h \<Rightarrow> ('l, 'f, 'd) lfs_lib \<Rightarrow> nat \<Rightarrow> 'l LittleFSImpl \<Rightarrow> 'd DirHandle \<Rightarrow> FileInfo
   \<Rightarrow> FSResult \<times> 'l LittleFSImpl \<times> 'd DirHandle \<times> FileInfo" where
  "LittleFSImpl_readdir K L this st handle info =
     (if \<not> is_open handle \<or> fs_impl handle \<noteq> Some this
      then (ERROR_BAD_FILE, st, handle, info)
      else case lfs_dir_read L (lfs st) (native handle) of (res, l1, d1, li) \<Rightarrow>
        if res > 0
        then (OK, st\<lparr>lfs := l1\<rparr>, handle\<lparr>native := d1\<rparr>,
              \<lparr>name = take (MAX_FILENAME_LENGTH - 1) (li_name li),
               info_size = li_size li,
               is_directory = (li_type li = LFS_TYPE_DIR K),
               modified_time = 0\<rparr>)
        else if res = 0
        then (OK, st\<lparr>lfs := l1\<rparr>, handle\<lparr>native := d1\<rparr>, info\<lparr>name := []\<rparr>)
        else (LittleFSImpl_convert_lfs_error K res, st\<lparr>lfs := l1\<rparr>, handle\<lparr>native := d1\<rparr>,
              info))"

definition LittleFSImpl_rewinddir ::
  "lfs_h \<Rightarrow> ('l, 'f, 'd) lfs_lib \<Rightarrow> nat \<Rightarrow> 'l LittleFSImpl \<Rightarrow> 'd DirHandle
   \<Rightarrow> FSResult \<times> 'l LittleFSImpl \<times> 'd DirHandle" where
  "LittleFSImpl_rewinddir K L this st handle =
     (if \<not> is_open handle \<or> fs_impl handle \<noteq> Some this then (ERROR_BAD_FILE, st, handle)
      else case lfs_dir_rewind L (lfs st) (native handle) of (res, l1, d1) \<Rightarrow>
        (LittleFSImpl_convert_lfs_error K res, st\<lparr>lfs := l1\<rparr>, handle\<lparr>native := d1\<rparr>))"

text \<open>
  The two space queries read \<^verbatim>\<open>config_->block_count\<close> and \<^verbatim>\<open>config_->block_size\<close>
  without a null check. Their result is \<open>None\<close> where that dereferences a null pointer.
\<close>

definition LittleFSImpl_get_free_space ::
  "lfs_h \<Rightarrow> ('l, 'f, 'd) lfs_lib \<Rightarrow> 'l LittleFSImpl \<Rightarrow> 64 word
   \<Rightarrow> (FSResult \<times> 'l LittleFSImpl \<times> 64 word) option" where
  "LittleFSImpl_get_free_space K L st free_bytes =
     (if \<not> mounted st then Some (ERROR_NOT_MOUNTED, st, free_bytes)
      else case lfs_fs_size L (lfs st) of (res, l1) \<Rightarrow>
        if res \<ge> 0 then
          (case config st of
             None \<Rightarrow> None
           | Some cfg \<Rightarrow>
               let used_blocks = (word_of_int res :: 32 word);
                   total_blocks = block_count cfg;
                   free_blocks = (if total_blocks > used_blocks
                                  then total_blocks - used_blocks else 0)
               in Some (OK, st\<lparr>lfs := l1\<rparr>,
                        (ucast free_blocks :: 64 word) * ucast (block_size cfg)))
        else Some (LittleFSImpl_convert_lfs_error K res, st\<lparr>lfs := l1\<rparr>, free_bytes))"

definition LittleFSImpl_get_total_space ::
  "'l LittleFSImpl \<Rightarrow> 64 word \<Rightarrow> (FSResult \<times> 'l LittleFSImpl \<times> 64 word) option" where
  "LittleFSImpl_get_total_space st total_bytes =
     (if \<not> mounted st then Some (ERROR_NOT_MOUNTED, st, total_bytes)
      else case config st of
        None \<Rightarrow> None
      | Some cfg \<Rightarrow>
          Some (OK, st, (ucast (block_count cfg) :: 64 word) * ucast (block_size cfg)))"

section \<open>The FAT adapter (FatFSImpl)\<close>

text \<open>
  The FatFs functions, in the same style. \<open>'v\<close> is the volume state behind the
  \<^verbatim>\<open>FATFS\<close> work area of the adapter, \<open>'f\<close> a \<^verbatim>\<open>FIL\<close>, \<open>'d\<close> a \<^verbatim>\<open>DIR\<close>. The first argument
  of \<open>f_mount\<close> tells whether the call passes the work area (\<open>True\<close>) or \<^verbatim>\<open>nullptr\<close>
  (\<open>False\<close>, which unregisters the volume). \<^verbatim>\<open>FSIZE_t\<close> and \<^verbatim>\<open>UINT\<close> are taken as 32-bit
  (FatFs without exFAT), matching the \<^verbatim>\<open>uint32_t\<close> positions and sizes of the portable
  interface. \<open>f_tell\<close> and \<open>f_size\<close> only read the file object.
\<close>

type_synonym FSIZE_t = "32 word"

record FILINFO =
  fsize :: FSIZE_t
  fdate :: "16 word"
  ftime :: "16 word"
  fattrib :: "8 word"
  fname :: string

record ('v, 'f, 'd) ff_lib =
  f_mount :: "bool \<Rightarrow> 'v \<Rightarrow> string \<Rightarrow> 8 word \<Rightarrow> int \<times> 'v"
  f_open :: "'f \<Rightarrow> string \<Rightarrow> 8 word \<Rightarrow> int \<times> 'f"
  f_close :: "'f \<Rightarrow> int \<times> 'f"
  f_read :: "'f \<Rightarrow> bytes \<Rightarrow> 32 word \<Rightarrow> int \<times> 'f \<times> bytes \<times> 32 word"
  f_write :: "'f \<Rightarrow> bytes \<Rightarrow> 32 word \<Rightarrow> int \<times> 'f \<times> 32 word"
  f_lseek :: "'f \<Rightarrow> FSIZE_t \<Rightarrow> int \<times> 'f"
  f_tell :: "'f \<Rightarrow> FSIZE_t"
  f_size :: "'f \<Rightarrow> FSIZE_t"
  f_sync :: "'f \<Rightarrow> int \<times> 'f"
  f_truncate :: "'f \<Rightarrow> int \<times> 'f"
  f_opendir :: "'d \<Rightarrow> string \<Rightarrow> int \<times> 'd"
  f_closedir :: "'d \<Rightarrow> int \<times> 'd"
  f_readdir :: "'d \<Rightarrow> int \<times> 'd \<times> FILINFO"
  f_rewinddir :: "'d \<Rightarrow> int \<times> 'd"

text \<open>The data members \<^verbatim>\<open>fatfs_\<close>, \<^verbatim>\<open>drive_path_\<close> and \<^verbatim>\<open>mounted_\<close> of
  \<^verbatim>\<open>class FatFSImpl\<close>; the last is called \<open>fat_mounted\<close> to keep it apart from the
  flash-log adapter's.\<close>

record 'v FatFSImpl =
  fatfs :: 'v
  drive_path :: string
  fat_mounted :: bool

text \<open>The constructor; the argument is a \<^verbatim>\<open>const char*\<close>, \<open>None\<close> when null, and
  \<^verbatim>\<open>sizeof(drive_path_)\<close> is 8.\<close>

definition FatFSImpl_ctor :: "'v \<Rightarrow> string option \<Rightarrow> 'v FatFSImpl" where
  "FatFSImpl_ctor zeroed path =
     \<lparr>fatfs = zeroed,
      drive_path = (case path of
                      None \<Rightarrow> ''0:''
                    | Some p \<Rightarrow> if length p < 8 then p else ''0:''),
      fat_mounted = False\<rparr>"

definition FatFSImpl_mount ::
  "ff_h \<Rightarrow> ('v, 'f, 'd) ff_lib \<Rightarrow> 'v FatFSImpl \<Rightarrow> FSResult \<times> 'v FatFSImpl" where
  "FatFSImpl_mount K L st =
     (if fat_mounted st then (OK, st)
      else case f_mount L True (fatfs st) (drive_path st) 1 of (res, v1) \<Rightarrow>
        if res = FR_OK K then (OK, st\<lparr>fatfs := v1, fat_mounted := True\<rparr>)
        else (FatFSImpl_convert_fatfs_error K res, st\<lparr>fatfs := v1\<rparr>))"

definition FatFSImpl_unmount ::
  "ff_h \<Rightarrow> ('v, 'f, 'd) ff_lib \<Rightarrow> 'v FatFSImpl \<Rightarrow> FSResult \<times> 'v FatFSImpl" where
  "FatFSImpl_unmount K L st =
     (if \<not> fat_mounted st then (OK, st)
      else case f_mount L False (fatfs st) (drive_path st) 0 of (res, v1) \<Rightarrow>
        (FatFSImpl_convert_fatfs_error K res, st\<lparr>fatfs := v1, fat_mounted := False\<rparr>))"

text \<open>
  The handle operations of the FAT adapter call FatFs on the native object inside the
  handle only, and read no data member of the adapter but its address \<open>this\<close> (and
  \<^verbatim>\<open>mounted_\<close> in \<^verbatim>\<open>open\<close> and \<^verbatim>\<open>opendir\<close>).
\<close>

definition FatFSImpl_open ::
  "ff_h \<Rightarrow> ('v, 'f, 'd) ff_lib \<Rightarrow> nat \<Rightarrow> 'v FatFSImpl \<Rightarrow> 'f FileHandle \<Rightarrow> string \<Rightarrow> OpenMode
   \<Rightarrow> FSResult \<times> 'f FileHandle" where
  "FatFSImpl_open K L this st handle path mode =
     (if \<not> fat_mounted st then (ERROR_NOT_MOUNTED, handle)
      else if is_open handle then (ERROR_BAD_FILE, handle)
      else let fat_mode = FatFSImpl_convert_open_mode K mode in
        case f_open L (native handle) path fat_mode of (res, f1) \<Rightarrow>
          if res = FR_OK K then (OK, \<lparr>is_open = True, fs_impl = Some this, native = f1\<rparr>)
          else (FatFSImpl_convert_fatfs_error K res, handle\<lparr>native := f1\<rparr>))"

definition FatFSImpl_close ::
  "ff_h \<Rightarrow> ('v, 'f, 'd) ff_lib \<Rightarrow> nat \<Rightarrow> 'f FileHandle \<Rightarrow> FSResult \<times> 'f FileHandle" where
  "FatFSImpl_close K L this handle =
     (if \<not> is_open handle \<or> fs_impl handle \<noteq> Some this then (ERROR_BAD_FILE, handle)
      else case f_close L (native handle) of (res, f1) \<Rightarrow>
        (FatFSImpl_convert_fatfs_error K res, \<lparr>is_open = False, fs_impl = None, native = f1\<rparr>))"

text \<open>\<^verbatim>\<open>static_cast<UINT>(size)\<close> narrows the \<^verbatim>\<open>size_t\<close> request; the count FatFs reports
  is widened back.\<close>

definition FatFSImpl_read ::
  "ff_h \<Rightarrow> ('v, 'f, 'd) ff_lib \<Rightarrow> nat \<Rightarrow> 'f FileHandle \<Rightarrow> bytes \<Rightarrow> nat \<Rightarrow> nat
   \<Rightarrow> FSResult \<times> 'f FileHandle \<times> bytes \<times> nat" where
  "FatFSImpl_read K L this handle buffer sz bytes_read =
     (if \<not> is_open handle \<or> fs_impl handle \<noteq> Some this
      then (ERROR_BAD_FILE, handle, buffer, bytes_read)
      else case f_read L (native handle) buffer (word_of_nat sz) of (res, f1, buffer1, br) \<Rightarrow>
        (FatFSImpl_convert_fatfs_error K res, handle\<lparr>native := f1\<rparr>, buffer1, unat br))"

definition FatFSImpl_write ::
  "ff_h \<Rightarrow> ('v, 'f, 'd) ff_lib \<Rightarrow> nat \<Rightarrow> 'f FileHandle \<Rightarrow> bytes \<Rightarrow> nat \<Rightarrow> nat
   \<Rightarrow> FSResult \<times> 'f FileHandle \<times> nat" where
  "FatFSImpl_write K L this handle buffer sz bytes_written =
     (if \<not> is_open handle \<or> fs_impl handle \<noteq> Some this
      then (ERROR_BAD_FILE, handle, bytes_written)
      else case f_write L (native handle) buffer (word_of_nat sz) of (res, f1, bw) \<Rightarrow>
        (FatFSImpl_convert_fatfs_error K res, handle\<lparr>native := f1\<rparr>, unat bw))"

text \<open>
  The \<^verbatim>\<open>switch\<close> of \<^verbatim>\<open>FatFSImpl::seek\<close> that computes \<^verbatim>\<open>new_pos\<close> from the queried
  position and size. The \<^verbatim>\<open>int32_t\<close> offset is a \<open>32 word\<close> read as two's complement:
  \<^verbatim>\<open>offset >= 0\<close> is \<open>0 \<le> sint offset\<close>, and the conversion to \<^verbatim>\<open>FSIZE_t\<close> keeps the
  bits. The sums and differences are \<^verbatim>\<open>FSIZE_t\<close> arithmetic and wrap. The \<^verbatim>\<open>switch\<close> has
  two ways of not producing a position: its \<^verbatim>\<open>default\<close> branch, and the negation
  \<^verbatim>\<open>-offset\<close> of the least \<^verbatim>\<open>int32_t\<close>, a signed overflow that C++ leaves undefined.
\<close>

datatype seek_fault = Default_branch | Negation_overflow

definition FatFSImpl_seek_new_pos ::
  "FSIZE_t \<Rightarrow> FSIZE_t \<Rightarrow> 32 word \<Rightarrow> SeekOrigin \<Rightarrow> seek_fault + FSIZE_t" where
  "FatFSImpl_seek_new_pos current_pos file_size offset origin =
     (if origin = SET then Inr (if 0 \<le> sint offset then offset else 0)
      else if origin = CUR then
        (if 0 \<le> sint offset then Inr (current_pos + offset)
         else if sint offset = - (2 ^ 31) then Inl Negation_overflow
         else let abs_offset = - offset in
           Inr (if current_pos \<ge> abs_offset then current_pos - abs_offset else 0))
      else if origin = END then
        (if 0 \<le> sint offset then Inr (file_size + offset)
         else if sint offset = - (2 ^ 31) then Inl Negation_overflow
         else let abs_offset = - offset in
           Inr (if file_size \<ge> abs_offset then file_size - abs_offset else 0))
      else Inl Default_branch)"

text \<open>
  The target as the specification words it, on unbounded integers, for comparison with
  the \<^verbatim>\<open>switch\<close> above: the queried position or size plus the signed offset, zero when
  that sum is negative.
\<close>

definition seek_target_as_specified :: "int \<Rightarrow> int \<Rightarrow> int" where
  "seek_target_as_specified base offset = (if base + offset < 0 then 0 else base + offset)"

text \<open>\<^verbatim>\<open>FatFSImpl::seek\<close>; the result is \<open>None\<close> where the source's behaviour is
  undefined.\<close>

definition FatFSImpl_seek ::
  "ff_h \<Rightarrow> ('v, 'f, 'd) ff_lib \<Rightarrow> nat \<Rightarrow> 'f FileHandle \<Rightarrow> 32 word \<Rightarrow> SeekOrigin
   \<Rightarrow> (FSResult \<times> 'f FileHandle) option" where
  "FatFSImpl_seek K L this handle offset origin =
     (if \<not> is_open handle \<or> fs_impl handle \<noteq> Some this then Some (ERROR_BAD_FILE, handle)
      else let current_pos = f_tell L (native handle);
               file_size = f_size L (native handle) in
        case FatFSImpl_seek_new_pos current_pos file_size offset origin of
          Inl Default_branch \<Rightarrow> Some (ERROR_INVALID, handle)
        | Inl Negation_overflow \<Rightarrow> None
        | Inr new_pos \<Rightarrow>
            (case f_lseek L (native handle) new_pos of (res, f1) \<Rightarrow>
               Some (FatFSImpl_convert_fatfs_error K res, handle\<lparr>native := f1\<rparr>)))"

definition FatFSImpl_tell ::
  "('v, 'f, 'd) ff_lib \<Rightarrow> nat \<Rightarrow> 'f FileHandle \<Rightarrow> 32 word \<Rightarrow> FSResult \<times> 'f FileHandle \<times> 32 word" where
  "FatFSImpl_tell L this handle position =
     (if \<not> is_open handle \<or> fs_impl handle \<noteq> Some this then (ERROR_BAD_FILE, handle, position)
      else (OK, handle, f_tell L (native handle)))"

definition FatFSImpl_sync ::
  "ff_h \<Rightarrow> ('v, 'f, 'd) ff_lib \<Rightarrow> nat \<Rightarrow> 'f FileHandle \<Rightarrow> FSResult \<times> 'f FileHandle" where
  "FatFSImpl_sync K L this handle =
     (if \<not> is_open handle \<or> fs_impl handle \<noteq> Some this then (ERROR_BAD_FILE, handle)
      else case f_sync L (native handle) of (res, f1) \<Rightarrow>
        (FatFSImpl_convert_fatfs_error K res, handle\<lparr>native := f1\<rparr>))"

text \<open>\<^verbatim>\<open>truncate\<close>: the status of the restoring \<^verbatim>\<open>f_lseek\<close> is discarded.\<close>

definition FatFSImpl_truncate ::
  "ff_h \<Rightarrow> ('v, 'f, 'd) ff_lib \<Rightarrow> nat \<Rightarrow> 'f FileHandle \<Rightarrow> 32 word \<Rightarrow> FSResult \<times> 'f FileHandle" where
  "FatFSImpl_truncate K L this handle sz =
     (if \<not> is_open handle \<or> fs_impl handle \<noteq> Some this then (ERROR_BAD_FILE, handle)
      else let current_pos = f_tell L (native handle) in
        case f_lseek L (native handle) sz of (res, f1) \<Rightarrow>
          if res \<noteq> FR_OK K then (FatFSImpl_convert_fatfs_error K res, handle\<lparr>native := f1\<rparr>)
          else case f_truncate L f1 of (res2, f2) \<Rightarrow>
            if res2 \<noteq> FR_OK K
            then (FatFSImpl_convert_fatfs_error K res2, handle\<lparr>native := f2\<rparr>)
            else if current_pos \<le> sz
            then (OK, handle\<lparr>native := snd (f_lseek L f2 current_pos)\<rparr>)
            else (OK, handle\<lparr>native := f2\<rparr>))"

definition FatFSImpl_opendir ::
  "ff_h \<Rightarrow> ('v, 'f, 'd) ff_lib \<Rightarrow> nat \<Rightarrow> 'v FatFSImpl \<Rightarrow> 'd DirHandle \<Rightarrow> string
   \<Rightarrow> FSResult \<times> 'd DirHandle" where
  "FatFSImpl_opendir K L this st handle path =
     (if \<not> fat_mounted st then (ERROR_NOT_MOUNTED, handle)
      else if is_open handle then (ERROR_BAD_FILE, handle)
      else case f_opendir L (native handle) path of (res, d1) \<Rightarrow>
        if res = FR_OK K then (OK, \<lparr>is_open = True, fs_impl = Some this, native = d1\<rparr>)
        else (FatFSImpl_convert_fatfs_error K res, handle\<lparr>native := d1\<rparr>))"

definition FatFSImpl_closedir ::
  "ff_h \<Rightarrow> ('v, 'f, 'd) ff_lib \<Rightarrow> nat \<Rightarrow> 'd DirHandle \<Rightarrow> FSResult \<times> 'd DirHandle" where
  "FatFSImpl_closedir K L this handle =
     (if \<not> is_open handle \<or> fs_impl handle \<noteq> Some this then (ERROR_BAD_FILE, handle)
      else case f_closedir L (native handle) of (res, d1) \<Rightarrow>
        (FatFSImpl_convert_fatfs_error K res, \<lparr>is_open = False, fs_impl = None, native = d1\<rparr>))"

text \<open>\<^verbatim>\<open>readdir\<close> packs the FAT date into the high and the FAT time into the low 16 bits of
  \<^verbatim>\<open>modified_time\<close>.\<close>

definition FatFSImpl_readdir ::
  "ff_h \<Rightarrow> ('v, 'f, 'd) ff_lib \<Rightarrow> nat \<Rightarrow> 'd DirHandle \<Rightarrow> FileInfo
   \<Rightarrow> FSResult \<times> 'd DirHandle \<times> FileInfo" where
  "FatFSImpl_readdir K L this handle info =
     (if \<not> is_open handle \<or> fs_impl handle \<noteq> Some this then (ERROR_BAD_FILE, handle, info)
      else case f_readdir L (native handle) of (res, d1, fno) \<Rightarrow>
        if res = FR_OK K then
          (if fname fno = [] then (OK, handle\<lparr>native := d1\<rparr>, info\<lparr>name := []\<rparr>)
           else (OK, handle\<lparr>native := d1\<rparr>,
                 \<lparr>name = take (MAX_FILENAME_LENGTH - 1) (fname fno),
                  info_size = fsize fno,
                  is_directory = (fattrib fno AND AM_DIR K \<noteq> 0),
                  modified_time = push_bit 16 (ucast (fdate fno)) OR ucast (ftime fno)\<rparr>))
        else (FatFSImpl_convert_fatfs_error K res, handle\<lparr>native := d1\<rparr>, info))"

definition FatFSImpl_rewinddir ::
  "ff_h \<Rightarrow> ('v, 'f, 'd) ff_lib \<Rightarrow> nat \<Rightarrow> 'd DirHandle \<Rightarrow> FSResult \<times> 'd DirHandle" where
  "FatFSImpl_rewinddir K L this handle =
     (if \<not> is_open handle \<or> fs_impl handle \<noteq> Some this then (ERROR_BAD_FILE, handle)
      else case f_rewinddir L (native handle) of (res, d1) \<Rightarrow>
        (FatFSImpl_convert_fatfs_error K res, handle\<lparr>native := d1\<rparr>))"

section \<open>Two simulated libraries\<close>

text \<open>
  To run the adapters on concrete inputs, two small stand-ins for the libraries, built
  for the released headers (status 0 is success in both). Each native object carries a
  script: the list of statuses its next calls return, success once the script is used up.
  The simulated FAT file is a position, a size and a script: a successful \<open>f_lseek\<close>
  moves the position (growing the file when it seeks past the end) and a successful
  \<open>f_truncate\<close> cuts the size to the position.
\<close>

text \<open>The block geometry of the demonstration program's \<^verbatim>\<open>lfs_cfg\<close>.\<close>

definition example_config :: lfs_config where
  "example_config = \<lparr>block_size = 4096, block_count = 4096\<rparr>"

definition next_status :: "int list \<Rightarrow> int \<times> int list" where
  "next_status script = (case script of [] \<Rightarrow> (0, []) | r # rs \<Rightarrow> (r, rs))"

definition no_info :: lfs_info where
  "no_info = \<lparr>li_type = 0, li_size = 0, li_name = []\<rparr>"

definition sim_lfs :: "(int list, 'f, 'd) lfs_lib" where
  "sim_lfs = \<lparr>
     lfs_mount = (\<lambda>l cfg. next_status l),
     lfs_format = (\<lambda>l cfg. next_status l),
     lfs_unmount = next_status,
     lfs_file_open = (\<lambda>l f path flags. (fst (next_status l), snd (next_status l), f)),
     lfs_file_close = (\<lambda>l f. (fst (next_status l), snd (next_status l), f)),
     lfs_file_read = (\<lambda>l f buffer n. (fst (next_status l), snd (next_status l), f, buffer)),
     lfs_file_write = (\<lambda>l f buffer n. (fst (next_status l), snd (next_status l), f)),
     lfs_file_seek = (\<lambda>l f off whence. (fst (next_status l), snd (next_status l), f)),
     lfs_file_tell = (\<lambda>l f. (fst (next_status l), snd (next_status l), f)),
     lfs_file_sync = (\<lambda>l f. (fst (next_status l), snd (next_status l), f)),
     lfs_file_truncate = (\<lambda>l f n. (fst (next_status l), snd (next_status l), f)),
     lfs_remove = (\<lambda>l path. next_status l),
     lfs_rename = (\<lambda>l old_path new_path. next_status l),
     lfs_stat = (\<lambda>l path. (fst (next_status l), snd (next_status l), no_info)),
     lfs_mkdir = (\<lambda>l path. next_status l),
     lfs_dir_open = (\<lambda>l d path. (fst (next_status l), snd (next_status l), d)),
     lfs_dir_close = (\<lambda>l d. (fst (next_status l), snd (next_status l), d)),
     lfs_dir_read = (\<lambda>l d. (fst (next_status l), snd (next_status l), d, no_info)),
     lfs_dir_rewind = (\<lambda>l d. (fst (next_status l), snd (next_status l), d)),
     lfs_fs_size = next_status \<rparr>"

record sim_file =
  fptr :: FSIZE_t
  objsize :: FSIZE_t
  script :: "int list"

definition sim_step :: "sim_file \<Rightarrow> (sim_file \<Rightarrow> sim_file) \<Rightarrow> int \<times> sim_file" where
  "sim_step f effect =
     (case next_status (script f) of (r, rest) \<Rightarrow>
        (r, if r = 0 then effect (f\<lparr>script := rest\<rparr>) else f\<lparr>script := rest\<rparr>))"

definition no_filinfo :: FILINFO where
  "no_filinfo = \<lparr>fsize = 0, fdate = 0, ftime = 0, fattrib = 0, fname = []\<rparr>"

definition sim_ff :: "(int list, sim_file, int list) ff_lib" where
  "sim_ff = \<lparr>
     f_mount = (\<lambda>given v path opt. next_status v),
     f_open = (\<lambda>f path mode. sim_step f (\<lambda>g. g)),
     f_close = (\<lambda>f. sim_step f (\<lambda>g. g)),
     f_read = (\<lambda>f buffer n. (fst (sim_step f (\<lambda>g. g)), snd (sim_step f (\<lambda>g. g)), buffer, 0)),
     f_write = (\<lambda>f buffer n. (fst (sim_step f (\<lambda>g. g)), snd (sim_step f (\<lambda>g. g)), 0)),
     f_lseek = (\<lambda>f ofs. sim_step f (\<lambda>g. g\<lparr>fptr := ofs, objsize := max (objsize g) ofs\<rparr>)),
     f_tell = fptr,
     f_size = objsize,
     f_sync = (\<lambda>f. sim_step f (\<lambda>g. g)),
     f_truncate = (\<lambda>f. sim_step f (\<lambda>g. g\<lparr>objsize := fptr g\<rparr>)),
     f_opendir = (\<lambda>d path. next_status d),
     f_closedir = next_status,
     f_readdir = (\<lambda>d. (fst (next_status d), snd (next_status d), no_filinfo)),
     f_rewinddir = next_status \<rparr>"

section \<open>Running the simulated libraries\<close>

lemma sim_lfs_calls:
  "lfs_mount sim_lfs l cfg = next_status l"
  "lfs_format sim_lfs l cfg = next_status l"
  "lfs_unmount sim_lfs l = next_status l"
  "lfs_file_close sim_lfs l f = (fst (next_status l), snd (next_status l), f)"
  "lfs_dir_close sim_lfs l d = (fst (next_status l), snd (next_status l), d)"
  "lfs_remove sim_lfs l path = next_status l"
  by (simp_all add: sim_lfs_def)

lemma sim_ff_calls:
  "f_mount sim_ff given v path opt = next_status v"
  "f_close sim_ff f = sim_step f (\<lambda>g. g)"
  "f_lseek sim_ff f ofs = sim_step f (\<lambda>g. g\<lparr>fptr := ofs, objsize := max (objsize g) ofs\<rparr>)"
  "f_tell sim_ff f = fptr f"
  "f_size sim_ff f = objsize f"
  "f_truncate sim_ff f = sim_step f (\<lambda>g. g\<lparr>objsize := fptr g\<rparr>)"
  "f_closedir sim_ff d = next_status d"
  by (simp_all add: sim_ff_def)

lemma next_status_simps:
  "next_status [] = (0, [])"
  "next_status (r # rs) = (r, rs)"
  by (simp_all add: next_status_def)

lemma littlefs_h_values:
  "LFS_ERR_OK littlefs_h = 0" "LFS_ERR_CORRUPT littlefs_h = -84"
  "LFS_ERR_NOMEM littlefs_h = -12"
  "LFS_O_RDONLY littlefs_h = 1" "LFS_O_WRONLY littlefs_h = 2" "LFS_O_RDWR littlefs_h = 3"
  "LFS_O_CREAT littlefs_h = 0x100" "LFS_O_EXCL littlefs_h = 0x200"
  "LFS_O_TRUNC littlefs_h = 0x400" "LFS_O_APPEND littlefs_h = 0x800"
  by (simp_all add: littlefs_h_def)

lemma fatfs_h_values:
  "FR_OK fatfs_h = 0" "FR_WRITE_PROTECTED fatfs_h = 10" "FR_TOO_MANY_OPEN_FILES fatfs_h = 18"
  "FA_READ fatfs_h = 1" "FA_WRITE fatfs_h = 2" "FA_OPEN_EXISTING fatfs_h = 0"
  "FA_CREATE_NEW fatfs_h = 4" "FA_CREATE_ALWAYS fatfs_h = 8" "FA_OPEN_APPEND fatfs_h = 0x30"
  by (simp_all add: fatfs_h_def)

section \<open>Properties of the error translation\<close>

lemma convert_lfs_error_table:
  "LittleFSImpl_convert_lfs_error K e =
     (case map_of (lfs_error_table K) e of Some r \<Rightarrow> r | None \<Rightarrow> ERROR_IO)"
  by (simp add: LittleFSImpl_convert_lfs_error_def lfs_error_table_def)

lemma convert_fatfs_error_table:
  "FatFSImpl_convert_fatfs_error K e =
     (case map_of (ff_error_table K) e of Some r \<Rightarrow> r | None \<Rightarrow> ERROR_IO)"
  by (simp add: FatFSImpl_convert_fatfs_error_def ff_error_table_def)

lemma convert_lfs_error_entry:
  assumes "lfs_labels_distinct K" and "(e, r) \<in> set (lfs_error_table K)"
  shows "LittleFSImpl_convert_lfs_error K e = r"
proof -
  have "map_of (lfs_error_table K) e = Some r"
    using assms by (simp add: lfs_labels_distinct_def)
  then show ?thesis by (simp add: convert_lfs_error_table)
qed

lemma convert_fatfs_error_entry:
  assumes "ff_labels_distinct K" and "(e, r) \<in> set (ff_error_table K)"
  shows "FatFSImpl_convert_fatfs_error K e = r"
proof -
  have "map_of (ff_error_table K) e = Some r"
    using assms by (simp add: ff_labels_distinct_def)
  then show ?thesis by (simp add: convert_fatfs_error_table)
qed

lemma convert_lfs_error_unlisted:
  assumes "e \<notin> fst ` set (lfs_error_table K)"
  shows "LittleFSImpl_convert_lfs_error K e = ERROR_IO"
proof -
  have "map_of (lfs_error_table K) e = None"
    using assms by (simp add: map_of_eq_None_iff)
  then show ?thesis by (simp add: convert_lfs_error_table)
qed

lemma convert_fatfs_error_unlisted:
  assumes "e \<notin> fst ` set (ff_error_table K)"
  shows "FatFSImpl_convert_fatfs_error K e = ERROR_IO"
proof -
  have "map_of (ff_error_table K) e = None"
    using assms by (simp add: map_of_eq_None_iff)
  then show ?thesis by (simp add: convert_fatfs_error_table)
qed

lemma convert_lfs_error_OK_iff:
  "LittleFSImpl_convert_lfs_error K e = OK \<longleftrightarrow> e = LFS_ERR_OK K"
  by (simp add: LittleFSImpl_convert_lfs_error_def)

lemma convert_fatfs_error_OK_iff:
  "FatFSImpl_convert_fatfs_error K e = OK \<longleftrightarrow> e = FR_OK K"
  by (simp add: FatFSImpl_convert_fatfs_error_def)

lemma littlefs_h_distinct: "lfs_labels_distinct littlefs_h"
  by (simp add: lfs_labels_distinct_def lfs_error_table_def littlefs_h_def)

lemma fatfs_h_distinct: "ff_labels_distinct fatfs_h"
  by (simp add: ff_labels_distinct_def ff_error_table_def fatfs_h_def)


text \<open>
  C7. Both translation functions are functions on all of \<open>int\<close>, so each native status
  has exactly one result. For every header whose case labels are distinct: the native OK
  maps to \<open>OK\<close>; the exhaustion codes (\<open>LFS_ERR_NOMEM\<close>, \<open>FR_NOT_ENOUGH_CORE\<close>,
  \<open>FR_TOO_MANY_OPEN_FILES\<close>) map to \<open>ERROR_NO_MEM\<close>; \<open>FR_DENIED\<close>, \<open>FR_WRITE_PROTECTED\<close>
  and \<open>FR_LOCKED\<close> map to \<open>ERROR_INVALID\<close>; every label maps to the result its
  \<^verbatim>\<open>case\<close> returns; every status that is no case label maps to \<open>ERROR_IO\<close>; and the
  result is \<open>OK\<close> for the native OK only.
\<close>

theorem error_translation_total:
  assumes "lfs_labels_distinct K" and "ff_labels_distinct F"
  shows "LittleFSImpl_convert_lfs_error K (LFS_ERR_OK K) = OK
       \<and> FatFSImpl_convert_fatfs_error F (FR_OK F) = OK
       \<and> LittleFSImpl_convert_lfs_error K (LFS_ERR_NOMEM K) = ERROR_NO_MEM
       \<and> FatFSImpl_convert_fatfs_error F (FR_NOT_ENOUGH_CORE F) = ERROR_NO_MEM
       \<and> FatFSImpl_convert_fatfs_error F (FR_TOO_MANY_OPEN_FILES F) = ERROR_NO_MEM
       \<and> FatFSImpl_convert_fatfs_error F (FR_DENIED F) = ERROR_INVALID
       \<and> FatFSImpl_convert_fatfs_error F (FR_WRITE_PROTECTED F) = ERROR_INVALID
       \<and> FatFSImpl_convert_fatfs_error F (FR_LOCKED F) = ERROR_INVALID
       \<and> (\<forall>(c, r) \<in> set (lfs_error_table K). LittleFSImpl_convert_lfs_error K c = r)
       \<and> (\<forall>(c, r) \<in> set (ff_error_table F). FatFSImpl_convert_fatfs_error F c = r)
       \<and> (e \<notin> fst ` set (lfs_error_table K) \<longrightarrow> LittleFSImpl_convert_lfs_error K e = ERROR_IO)
       \<and> (f \<notin> fst ` set (ff_error_table F) \<longrightarrow> FatFSImpl_convert_fatfs_error F f = ERROR_IO)
       \<and> (LittleFSImpl_convert_lfs_error K e = OK \<longleftrightarrow> e = LFS_ERR_OK K)
       \<and> (FatFSImpl_convert_fatfs_error F f = OK \<longleftrightarrow> f = FR_OK F)"
proof -
  have lfs_all: "\<forall>(c, r) \<in> set (lfs_error_table K). LittleFSImpl_convert_lfs_error K c = r"
    using convert_lfs_error_entry [OF assms(1)] by blast
  have ff_all: "\<forall>(c, r) \<in> set (ff_error_table F). FatFSImpl_convert_fatfs_error F c = r"
    using convert_fatfs_error_entry [OF assms(2)] by blast
  have nomem: "LittleFSImpl_convert_lfs_error K (LFS_ERR_NOMEM K) = ERROR_NO_MEM"
    by (rule convert_lfs_error_entry [OF assms(1)]) (simp add: lfs_error_table_def)
  have core: "FatFSImpl_convert_fatfs_error F (FR_NOT_ENOUGH_CORE F) = ERROR_NO_MEM"
    by (rule convert_fatfs_error_entry [OF assms(2)]) (simp add: ff_error_table_def)
  have many: "FatFSImpl_convert_fatfs_error F (FR_TOO_MANY_OPEN_FILES F) = ERROR_NO_MEM"
    by (rule convert_fatfs_error_entry [OF assms(2)]) (simp add: ff_error_table_def)
  have denied: "FatFSImpl_convert_fatfs_error F (FR_DENIED F) = ERROR_INVALID"
    by (rule convert_fatfs_error_entry [OF assms(2)]) (simp add: ff_error_table_def)
  have wprot: "FatFSImpl_convert_fatfs_error F (FR_WRITE_PROTECTED F) = ERROR_INVALID"
    by (rule convert_fatfs_error_entry [OF assms(2)]) (simp add: ff_error_table_def)
  have locked: "FatFSImpl_convert_fatfs_error F (FR_LOCKED F) = ERROR_INVALID"
    by (rule convert_fatfs_error_entry [OF assms(2)]) (simp add: ff_error_table_def)
  show ?thesis
    using lfs_all ff_all nomem core many denied wprot locked
      convert_lfs_error_unlisted [of e K] convert_fatfs_error_unlisted [of f F]
    by (simp add: convert_lfs_error_OK_iff convert_fatfs_error_OK_iff)
qed

text \<open>
  At the released headers: \<open>-61\<close> (\<^verbatim>\<open>LFS_ERR_NOATTR\<close>) and \<open>-36\<close>
  (\<^verbatim>\<open>LFS_ERR_NAMETOOLONG\<close>) are littlefs codes without a case label, and 42 is no
  \<^verbatim>\<open>FRESULT\<close> at all.
\<close>

theorem error_translation_total_witness:
  "lfs_labels_distinct littlefs_h \<and> ff_labels_distinct fatfs_h
   \<and> (-61) \<notin> fst ` set (lfs_error_table littlefs_h)
   \<and> 42 \<notin> fst ` set (ff_error_table fatfs_h)
   \<and> LittleFSImpl_convert_lfs_error littlefs_h (-61) = ERROR_IO
   \<and> FatFSImpl_convert_fatfs_error fatfs_h 42 = ERROR_IO
   \<and> LittleFSImpl_convert_lfs_error littlefs_h (-12) = ERROR_NO_MEM
   \<and> FatFSImpl_convert_fatfs_error fatfs_h 18 = ERROR_NO_MEM
   \<and> FatFSImpl_convert_fatfs_error fatfs_h 10 = ERROR_INVALID"
proof -
  have a: "(-61) \<notin> fst ` set (lfs_error_table littlefs_h)"
    by (simp add: lfs_error_table_def littlefs_h_def)
  have b: "42 \<notin> fst ` set (ff_error_table fatfs_h)"
    by (simp add: ff_error_table_def fatfs_h_def)
  show ?thesis
    using a b littlefs_h_distinct fatfs_h_distinct
      error_translation_total [OF littlefs_h_distinct fatfs_h_distinct, of "-61" 42]
    by (simp add: littlefs_h_values fatfs_h_values)
qed

section \<open>Properties of the open-mode translation\<close>
















section \<open>Handles that the adapter does not own\<close>

lemma LittleFSImpl_file_ops_bad_handle:
  assumes "\<not> is_open h \<or> fs_impl h \<noteq> Some this"
  shows "LittleFSImpl_close K L this st h = (ERROR_BAD_FILE, st, h)"
    and "LittleFSImpl_read K L this st h buf n br = (ERROR_BAD_FILE, st, h, buf, br)"
    and "LittleFSImpl_write K L this st h buf n bw = (ERROR_BAD_FILE, st, h, bw)"
    and "LittleFSImpl_seek K L this st h off origin = (ERROR_BAD_FILE, st, h)"
    and "LittleFSImpl_tell K L this st h pos = (ERROR_BAD_FILE, st, h, pos)"
    and "LittleFSImpl_sync K L this st h = (ERROR_BAD_FILE, st, h)"
    and "LittleFSImpl_truncate K L this st h sz = (ERROR_BAD_FILE, st, h)"
  using assms
  by (auto simp: LittleFSImpl_close_def LittleFSImpl_read_def LittleFSImpl_write_def
      LittleFSImpl_seek_def LittleFSImpl_tell_def LittleFSImpl_sync_def
      LittleFSImpl_truncate_def)

lemma LittleFSImpl_dir_ops_bad_handle:
  assumes "\<not> is_open d \<or> fs_impl d \<noteq> Some this"
  shows "LittleFSImpl_closedir K L this st d = (ERROR_BAD_FILE, st, d)"
    and "LittleFSImpl_readdir K L this st d info = (ERROR_BAD_FILE, st, d, info)"
    and "LittleFSImpl_rewinddir K L this st d = (ERROR_BAD_FILE, st, d)"
  using assms
  by (auto simp: LittleFSImpl_closedir_def LittleFSImpl_readdir_def LittleFSImpl_rewinddir_def)

lemma FatFSImpl_file_ops_bad_handle:
  assumes "\<not> is_open h \<or> fs_impl h \<noteq> Some this"
  shows "FatFSImpl_close F M this h = (ERROR_BAD_FILE, h)"
    and "FatFSImpl_read F M this h buf n br = (ERROR_BAD_FILE, h, buf, br)"
    and "FatFSImpl_write F M this h buf n bw = (ERROR_BAD_FILE, h, bw)"
    and "FatFSImpl_seek F M this h off origin = Some (ERROR_BAD_FILE, h)"
    and "FatFSImpl_tell M this h pos = (ERROR_BAD_FILE, h, pos)"
    and "FatFSImpl_sync F M this h = (ERROR_BAD_FILE, h)"
    and "FatFSImpl_truncate F M this h sz = (ERROR_BAD_FILE, h)"
  using assms
  by (auto simp: FatFSImpl_close_def FatFSImpl_read_def FatFSImpl_write_def
      FatFSImpl_seek_def FatFSImpl_tell_def FatFSImpl_sync_def FatFSImpl_truncate_def)

lemma FatFSImpl_dir_ops_bad_handle:
  assumes "\<not> is_open d \<or> fs_impl d \<noteq> Some this"
  shows "FatFSImpl_closedir F M this d = (ERROR_BAD_FILE, d)"
    and "FatFSImpl_readdir F M this d info = (ERROR_BAD_FILE, d, info)"
    and "FatFSImpl_rewinddir F M this d = (ERROR_BAD_FILE, d)"
  using assms
  by (auto simp: FatFSImpl_closedir_def FatFSImpl_readdir_def FatFSImpl_rewinddir_def)

text \<open>
  C1. A file handle \<open>h\<close> or directory handle \<open>d\<close> whose open flag is clear or whose
  stored owner is not the adapter at address \<open>this\<close> is rejected by every handle-taking
  operation of both adapters with \<open>ERROR_BAD_FILE\<close>: the adapter state, the handle with
  its native object, and every output parameter come back as they went in, whatever the
  library functions \<open>L\<close> and \<open>M\<close> would do and whatever state the adapter is in. An
  unopened handle, a closed one and one stamped by another adapter are all such handles.
\<close>

theorem bad_handle_rejected:
  assumes "\<not> is_open h \<or> fs_impl h \<noteq> Some this"
    and "\<not> is_open d \<or> fs_impl d \<noteq> Some this"
  shows "LittleFSImpl_close K L this st h = (ERROR_BAD_FILE, st, h)
       \<and> LittleFSImpl_read K L this st h buf n br = (ERROR_BAD_FILE, st, h, buf, br)
       \<and> LittleFSImpl_write K L this st h buf n bw = (ERROR_BAD_FILE, st, h, bw)
       \<and> LittleFSImpl_seek K L this st h off origin = (ERROR_BAD_FILE, st, h)
       \<and> LittleFSImpl_tell K L this st h pos = (ERROR_BAD_FILE, st, h, pos)
       \<and> LittleFSImpl_sync K L this st h = (ERROR_BAD_FILE, st, h)
       \<and> LittleFSImpl_truncate K L this st h sz = (ERROR_BAD_FILE, st, h)
       \<and> LittleFSImpl_closedir K L this st d = (ERROR_BAD_FILE, st, d)
       \<and> LittleFSImpl_readdir K L this st d info = (ERROR_BAD_FILE, st, d, info)
       \<and> LittleFSImpl_rewinddir K L this st d = (ERROR_BAD_FILE, st, d)
       \<and> FatFSImpl_close F M this h = (ERROR_BAD_FILE, h)
       \<and> FatFSImpl_read F M this h buf n br = (ERROR_BAD_FILE, h, buf, br)
       \<and> FatFSImpl_write F M this h buf n bw = (ERROR_BAD_FILE, h, bw)
       \<and> FatFSImpl_seek F M this h off origin = Some (ERROR_BAD_FILE, h)
       \<and> FatFSImpl_tell M this h pos = (ERROR_BAD_FILE, h, pos)
       \<and> FatFSImpl_sync F M this h = (ERROR_BAD_FILE, h)
       \<and> FatFSImpl_truncate F M this h sz = (ERROR_BAD_FILE, h)
       \<and> FatFSImpl_closedir F M this d = (ERROR_BAD_FILE, d)
       \<and> FatFSImpl_readdir F M this d info = (ERROR_BAD_FILE, d, info)
       \<and> FatFSImpl_rewinddir F M this d = (ERROR_BAD_FILE, d)"
  by (simp only: LittleFSImpl_file_ops_bad_handle [OF assms(1)]
      LittleFSImpl_dir_ops_bad_handle [OF assms(2)]
      FatFSImpl_file_ops_bad_handle [OF assms(1)]
      FatFSImpl_dir_ops_bad_handle [OF assms(2)] simp_thms)


theorem bad_handle_rejected_witness:
  "(let unopened = (Handle_ctor [] :: int list DirHandle);
        foreign = \<lparr>is_open = True, fs_impl = Some 2,
                   native = \<lparr>fptr = 5, objsize = 10, script = []\<rparr>\<rparr>;
        st = LittleFSImpl_ctor [] [] (Some example_config);
        L = (sim_lfs :: (int list, sim_file, int list) lfs_lib)
    in (\<not> is_open foreign \<or> fs_impl foreign \<noteq> Some 1)
     \<and> (\<not> is_open unopened \<or> fs_impl unopened \<noteq> Some 1)
     \<and> LittleFSImpl_read littlefs_h L 1 st foreign [] 4 0 = (ERROR_BAD_FILE, st, foreign, [], 0)
     \<and> LittleFSImpl_closedir littlefs_h L 1 st unopened = (ERROR_BAD_FILE, st, unopened)
     \<and> FatFSImpl_seek fatfs_h sim_ff 1 foreign 3 SET = Some (ERROR_BAD_FILE, foreign)
     \<and> FatFSImpl_readdir fatfs_h sim_ff 1 unopened FileInfo_ctor
         = (ERROR_BAD_FILE, unopened, FileInfo_ctor))"
proof -
  let ?foreign = "\<lparr>is_open = True, fs_impl = Some 2,
                   native = \<lparr>fptr = 5, objsize = 10, script = []\<rparr>\<rparr>"
  let ?unopened = "Handle_ctor [] :: int list DirHandle"
  have f: "\<not> is_open ?foreign \<or> fs_impl ?foreign \<noteq> Some 1" by simp
  have u: "\<not> is_open ?unopened \<or> fs_impl ?unopened \<noteq> Some 1"
    by (simp add: Handle_ctor_def)
  show ?thesis
    using f u bad_handle_rejected [OF f u, of littlefs_h
        "sim_lfs :: (int list, sim_file, int list) lfs_lib"
        "LittleFSImpl_ctor [] [] (Some example_config)" "[]" 4 0 0 3 SET 0 0
        FileInfo_ctor fatfs_h sim_ff]
    by (simp add: Let_def Handle_ctor_def)
qed

section \<open>Mount and unmount\<close>

lemma LittleFSImpl_mount_OK_mounted:
  "fst (LittleFSImpl_mount K L st) = OK \<Longrightarrow> mounted (snd (LittleFSImpl_mount K L st))"
  by (auto simp: LittleFSImpl_mount_def convert_lfs_error_OK_iff
      split: option.splits prod.splits if_splits)

lemma LittleFSImpl_mount_mounted_OK:
  "\<not> mounted st \<Longrightarrow> mounted (snd (LittleFSImpl_mount K L st)) \<Longrightarrow>
   fst (LittleFSImpl_mount K L st) = OK"
  by (auto simp: LittleFSImpl_mount_def split: option.splits prod.splits if_splits)

lemma FatFSImpl_mount_OK_mounted:
  "fst (FatFSImpl_mount F M st) = OK \<Longrightarrow> fat_mounted (snd (FatFSImpl_mount F M st))"
  by (auto simp: FatFSImpl_mount_def convert_fatfs_error_OK_iff
      split: prod.splits if_splits)

text \<open>
  C9. For both adapters, \<open>unmount\<close> on an unmounted adapter returns \<open>OK\<close> and \<open>mount\<close> on
  a mounted adapter returns \<open>OK\<close>, and each hands the adapter back unchanged for every
  library \<open>L\<close>, \<open>M\<close>: no native call is made. So a second \<open>unmount\<close> returns \<open>OK\<close> and
  changes nothing, and a \<open>mount\<close> after a successful \<open>mount\<close> returns \<open>OK\<close> and changes
  nothing.
\<close>

theorem mount_unmount_idempotent:
  assumes "\<not> mounted su" and "mounted sm" and "\<not> fat_mounted fu" and "fat_mounted fm"
  shows "LittleFSImpl_unmount K L su = (OK, su)
       \<and> LittleFSImpl_mount K L sm = (OK, sm)
       \<and> FatFSImpl_unmount F M fu = (OK, fu)
       \<and> FatFSImpl_mount F M fm = (OK, fm)
       \<and> LittleFSImpl_unmount K L (snd (LittleFSImpl_unmount K L sm))
           = (OK, snd (LittleFSImpl_unmount K L sm))
       \<and> FatFSImpl_unmount F M (snd (FatFSImpl_unmount F M fm))
           = (OK, snd (FatFSImpl_unmount F M fm))
       \<and> (fst (LittleFSImpl_mount K L su) = OK \<longrightarrow>
            LittleFSImpl_mount K L (snd (LittleFSImpl_mount K L su))
              = (OK, snd (LittleFSImpl_mount K L su)))
       \<and> (fst (FatFSImpl_mount F M fu) = OK \<longrightarrow>
            FatFSImpl_mount F M (snd (FatFSImpl_mount F M fu))
              = (OK, snd (FatFSImpl_mount F M fu)))"
proof -
  have a: "LittleFSImpl_unmount K L su = (OK, su)"
    using assms(1) by (simp add: LittleFSImpl_unmount_def)
  have b: "LittleFSImpl_mount K L sm = (OK, sm)"
    using assms(2) by (simp add: LittleFSImpl_mount_def)
  have c: "FatFSImpl_unmount F M fu = (OK, fu)"
    using assms(3) by (simp add: FatFSImpl_unmount_def)
  have d: "FatFSImpl_mount F M fm = (OK, fm)"
    using assms(4) by (simp add: FatFSImpl_mount_def)
  have e: "LittleFSImpl_unmount K L (snd (LittleFSImpl_unmount K L sm))
             = (OK, snd (LittleFSImpl_unmount K L sm))"
    using assms(2) by (simp add: LittleFSImpl_unmount_def split: prod.splits)
  have f: "FatFSImpl_unmount F M (snd (FatFSImpl_unmount F M fm))
             = (OK, snd (FatFSImpl_unmount F M fm))"
    using assms(4) by (simp add: FatFSImpl_unmount_def split: prod.splits)
  have g: "LittleFSImpl_mount K L (snd (LittleFSImpl_mount K L su))
             = (OK, snd (LittleFSImpl_mount K L su))"
    if "fst (LittleFSImpl_mount K L su) = OK"
    using LittleFSImpl_mount_OK_mounted [OF that] by (simp add: LittleFSImpl_mount_def)
  have h: "FatFSImpl_mount F M (snd (FatFSImpl_mount F M fu))
             = (OK, snd (FatFSImpl_mount F M fu))"
    if "fst (FatFSImpl_mount F M fu) = OK"
    using FatFSImpl_mount_OK_mounted [OF that] by (simp add: FatFSImpl_mount_def)
  from a b c d e f g h show ?thesis by blast
qed

theorem mount_unmount_idempotent_witness:
  "(let L = (sim_lfs :: (int list, unit, unit) lfs_lib);
        su = LittleFSImpl_ctor [] [] (Some example_config);
        sm = su\<lparr>mounted := True\<rparr>;
        fu = FatFSImpl_ctor [] (Some ''0:'');
        fm = fu\<lparr>fat_mounted := True\<rparr>
    in \<not> mounted su \<and> mounted sm \<and> \<not> fat_mounted fu \<and> fat_mounted fm
     \<and> LittleFSImpl_unmount littlefs_h L su = (OK, su)
     \<and> LittleFSImpl_mount littlefs_h L sm = (OK, sm)
     \<and> FatFSImpl_unmount fatfs_h sim_ff fu = (OK, fu)
     \<and> FatFSImpl_mount fatfs_h sim_ff fm = (OK, fm))"
proof -
  let ?su = "LittleFSImpl_ctor [] [] (Some example_config) :: int list LittleFSImpl"
  let ?fu = "FatFSImpl_ctor [] (Some ''0:'') :: int list FatFSImpl"
  have a: "\<not> mounted ?su" by (simp add: LittleFSImpl_ctor_def)
  have b: "mounted (?su\<lparr>mounted := True\<rparr>)" by simp
  have c: "\<not> fat_mounted ?fu" by (simp add: FatFSImpl_ctor_def)
  have d: "fat_mounted (?fu\<lparr>fat_mounted := True\<rparr>)" by simp
  show ?thesis
    using a b c d mount_unmount_idempotent [OF a b c d, of littlefs_h
        "sim_lfs :: (int list, unit, unit) lfs_lib" fatfs_h sim_ff]
    by (simp add: Let_def)
qed

text \<open>
  C3. In the unmounted state with a configuration, \<open>mount\<close> calls \<open>lfs_mount\<close>. With
  \<open>r1\<close>, \<open>r2\<close>, \<open>r3\<close> the statuses of that call, of an \<open>lfs_format\<close> after it and of an
  \<open>lfs_mount\<close> after the format (each on the native state its predecessor left): success
  of the first mount gives \<open>OK\<close> and a mounted adapter; a failure other than
  \<open>LFS_ERR_CORRUPT\<close> is translated and returned with the native state as the first call
  left it; on \<open>LFS_ERR_CORRUPT\<close> the format runs once, its failure is translated and
  returned; otherwise the mount is retried once, its failure is translated and returned,
  and its success gives the same \<open>OK\<close> as a clean mount. The adapter ends up mounted
  exactly when the result is \<open>OK\<close>.
\<close>

theorem lfs_mount_state_machine:
  assumes "\<not> mounted st" and "config st = Some cfg"
  shows "LittleFSImpl_mount K L st =
           (let (r1, l1) = lfs_mount L (lfs st) cfg;
                (r2, l2) = lfs_format L l1 cfg;
                (r3, l3) = lfs_mount L l2 cfg
            in if r1 = LFS_ERR_OK K then (OK, st\<lparr>lfs := l1, mounted := True\<rparr>)
               else if r1 \<noteq> LFS_ERR_CORRUPT K
               then (LittleFSImpl_convert_lfs_error K r1, st\<lparr>lfs := l1, mounted := False\<rparr>)
               else if r2 \<noteq> LFS_ERR_OK K
               then (LittleFSImpl_convert_lfs_error K r2, st\<lparr>lfs := l2, mounted := False\<rparr>)
               else if r3 \<noteq> LFS_ERR_OK K
               then (LittleFSImpl_convert_lfs_error K r3, st\<lparr>lfs := l3, mounted := False\<rparr>)
               else (OK, st\<lparr>lfs := l3, mounted := True\<rparr>))
       \<and> (mounted (snd (LittleFSImpl_mount K L st)) \<longleftrightarrow> fst (LittleFSImpl_mount K L st) = OK)"
proof -
  have unm: "st\<lparr>lfs := l, mounted := False\<rparr> = st\<lparr>lfs := l\<rparr>" for l
    using assms(1) by simp
  have flow: "LittleFSImpl_mount K L st =
           (let (r1, l1) = lfs_mount L (lfs st) cfg;
                (r2, l2) = lfs_format L l1 cfg;
                (r3, l3) = lfs_mount L l2 cfg
            in if r1 = LFS_ERR_OK K then (OK, st\<lparr>lfs := l1, mounted := True\<rparr>)
               else if r1 \<noteq> LFS_ERR_CORRUPT K
               then (LittleFSImpl_convert_lfs_error K r1, st\<lparr>lfs := l1, mounted := False\<rparr>)
               else if r2 \<noteq> LFS_ERR_OK K
               then (LittleFSImpl_convert_lfs_error K r2, st\<lparr>lfs := l2, mounted := False\<rparr>)
               else if r3 \<noteq> LFS_ERR_OK K
               then (LittleFSImpl_convert_lfs_error K r3, st\<lparr>lfs := l3, mounted := False\<rparr>)
               else (OK, st\<lparr>lfs := l3, mounted := True\<rparr>))"
    using assms by (simp add: LittleFSImpl_mount_def unm split: prod.splits)
  have iff: "mounted (snd (LittleFSImpl_mount K L st)) \<longleftrightarrow> fst (LittleFSImpl_mount K L st) = OK"
    using LittleFSImpl_mount_OK_mounted [of K L st]
      LittleFSImpl_mount_mounted_OK [OF assms(1), of K L] by blast
  from flow iff show ?thesis by (rule conjI)
qed

text \<open>
  The five ways through \<open>mount\<close> at the released header, on the simulated library whose
  native state is the script of statuses still to come: a clean mount; an I/O failure;
  corrupt, then a failing format; corrupt, a good format, then a failing retry; corrupt,
  a good format and a good retry.
\<close>

theorem lfs_mount_state_machine_witness:
  "(let L = (sim_lfs :: (int list, unit, unit) lfs_lib);
        start = (\<lambda>script. \<lparr>lfs = script, config = Some example_config, mounted = False\<rparr>);
        ended = (\<lambda>m. \<lparr>lfs = [], config = Some example_config, mounted = m\<rparr>)
    in LittleFSImpl_mount littlefs_h L (start [0]) = (OK, ended True)
     \<and> LittleFSImpl_mount littlefs_h L (start [-5]) = (ERROR_IO, ended False)
     \<and> LittleFSImpl_mount littlefs_h L (start [-84, -28]) = (ERROR_NO_SPC, ended False)
     \<and> LittleFSImpl_mount littlefs_h L (start [-84, 0, -84]) = (ERROR_CORRUPT, ended False)
     \<and> LittleFSImpl_mount littlefs_h L (start [-84, 0, 0]) = (OK, ended True))"
proof -
  let ?L = "sim_lfs :: (int list, unit, unit) lfs_lib"
  let ?start = "\<lambda>script. \<lparr>lfs = script, config = Some example_config, mounted = False\<rparr>"
  have u: "\<not> mounted (?start s)" and c: "config (?start s) = Some example_config"
    for s :: "int list"
    by simp_all
  note m = lfs_mount_state_machine [OF u c, of littlefs_h ?L, THEN conjunct1]
  have e: "LittleFSImpl_convert_lfs_error littlefs_h (-5) = ERROR_IO"
    "LittleFSImpl_convert_lfs_error littlefs_h (-28) = ERROR_NO_SPC"
    "LittleFSImpl_convert_lfs_error littlefs_h (-84) = ERROR_CORRUPT"
    by (simp_all add: LittleFSImpl_convert_lfs_error_def littlefs_h_def)
  show ?thesis
    by (simp add: Let_def m e littlefs_h_values sim_lfs_calls next_status_simps)
qed

section \<open>Closing handles\<close>

text \<open>
  C8. For a file handle \<open>h\<close> and a directory handle \<open>d\<close> that are open and owned by the
  adapter at \<open>this\<close>, \<open>close\<close> and \<open>closedir\<close> of both adapters return the translation of
  whatever status the native close reports, and hand back a handle with the open flag
  clear and no owner, error or not. Closing that handle again, in whatever state the
  adapter then is, returns \<open>ERROR_BAD_FILE\<close> and leaves it as it is.
\<close>

theorem close_releases_handle:
  assumes "is_open h" and "fs_impl h = Some this"
    and "is_open d" and "fs_impl d = Some this"
  shows "(case LittleFSImpl_close K L this st h of (r, st1, h1) \<Rightarrow>
            r = LittleFSImpl_convert_lfs_error K (fst (lfs_file_close L (lfs st) (native h)))
          \<and> \<not> is_open h1 \<and> fs_impl h1 = None
          \<and> LittleFSImpl_close K L this st2 h1 = (ERROR_BAD_FILE, st2, h1))
       \<and> (case LittleFSImpl_closedir K L this st d of (r, st1, d1) \<Rightarrow>
            r = LittleFSImpl_convert_lfs_error K (fst (lfs_dir_close L (lfs st) (native d)))
          \<and> \<not> is_open d1 \<and> fs_impl d1 = None
          \<and> LittleFSImpl_closedir K L this st2 d1 = (ERROR_BAD_FILE, st2, d1))
       \<and> (case FatFSImpl_close F M this h of (r, h1) \<Rightarrow>
            r = FatFSImpl_convert_fatfs_error F (fst (f_close M (native h)))
          \<and> \<not> is_open h1 \<and> fs_impl h1 = None
          \<and> FatFSImpl_close F M this h1 = (ERROR_BAD_FILE, h1))
       \<and> (case FatFSImpl_closedir F M this d of (r, d1) \<Rightarrow>
            r = FatFSImpl_convert_fatfs_error F (fst (f_closedir M (native d)))
          \<and> \<not> is_open d1 \<and> fs_impl d1 = None
          \<and> FatFSImpl_closedir F M this d1 = (ERROR_BAD_FILE, d1))"
proof -
  have a: "case LittleFSImpl_close K L this st h of (r, st1, h1) \<Rightarrow>
            r = LittleFSImpl_convert_lfs_error K (fst (lfs_file_close L (lfs st) (native h)))
          \<and> \<not> is_open h1 \<and> fs_impl h1 = None
          \<and> LittleFSImpl_close K L this st2 h1 = (ERROR_BAD_FILE, st2, h1)"
    using assms(1,2) by (simp add: LittleFSImpl_close_def split: prod.splits)
  have b: "case LittleFSImpl_closedir K L this st d of (r, st1, d1) \<Rightarrow>
            r = LittleFSImpl_convert_lfs_error K (fst (lfs_dir_close L (lfs st) (native d)))
          \<and> \<not> is_open d1 \<and> fs_impl d1 = None
          \<and> LittleFSImpl_closedir K L this st2 d1 = (ERROR_BAD_FILE, st2, d1)"
    using assms(3,4) by (simp add: LittleFSImpl_closedir_def split: prod.splits)
  have c: "case FatFSImpl_close F M this h of (r, h1) \<Rightarrow>
            r = FatFSImpl_convert_fatfs_error F (fst (f_close M (native h)))
          \<and> \<not> is_open h1 \<and> fs_impl h1 = None
          \<and> FatFSImpl_close F M this h1 = (ERROR_BAD_FILE, h1)"
    using assms(1,2) by (simp add: FatFSImpl_close_def split: prod.splits)
  have d: "case FatFSImpl_closedir F M this d of (r, d1) \<Rightarrow>
            r = FatFSImpl_convert_fatfs_error F (fst (f_closedir M (native d)))
          \<and> \<not> is_open d1 \<and> fs_impl d1 = None
          \<and> FatFSImpl_closedir F M this d1 = (ERROR_BAD_FILE, d1)"
    using assms(3,4) by (simp add: FatFSImpl_closedir_def split: prod.splits)
  from a b c d show ?thesis by blast
qed

text \<open>
  A FAT file whose native close fails with \<open>FR_DISK_ERR\<close> (1), and a flash-log file whose
  native close fails with \<open>LFS_ERR_IO\<close> (-5): the error comes back, the handle is
  released, and the second close is refused.
\<close>

theorem close_releases_handle_witness:
  "(let L = (sim_lfs :: (int list, sim_file, int list) lfs_lib);
        h = \<lparr>is_open = True, fs_impl = Some 7,
             native = \<lparr>fptr = 0, objsize = 2, script = [1]\<rparr>\<rparr>;
        h1 = \<lparr>is_open = False, fs_impl = None,
              native = \<lparr>fptr = 0, objsize = 2, script = []\<rparr>\<rparr>;
        st = \<lparr>lfs = [-5], config = Some example_config, mounted = True\<rparr>;
        st1 = \<lparr>lfs = [], config = Some example_config, mounted = True\<rparr>
    in is_open h \<and> fs_impl h = Some 7
     \<and> FatFSImpl_close fatfs_h sim_ff 7 h = (ERROR_IO, h1)
     \<and> FatFSImpl_close fatfs_h sim_ff 7 h1 = (ERROR_BAD_FILE, h1)
     \<and> LittleFSImpl_close littlefs_h L 7 st h = (ERROR_IO, st1, h\<lparr>is_open := False, fs_impl := None\<rparr>)
     \<and> LittleFSImpl_close littlefs_h L 7 st1 (h\<lparr>is_open := False, fs_impl := None\<rparr>)
         = (ERROR_BAD_FILE, st1, h\<lparr>is_open := False, fs_impl := None\<rparr>))"
proof -
  let ?L = "sim_lfs :: (int list, sim_file, int list) lfs_lib"
  let ?h = "\<lparr>is_open = True, fs_impl = Some 7,
             native = \<lparr>fptr = 0, objsize = 2, script = [1]\<rparr>\<rparr>"
  let ?d = "\<lparr>is_open = True, fs_impl = Some 7, native = [] :: int list\<rparr>"
  let ?st = "\<lparr>lfs = [-5], config = Some example_config, mounted = True\<rparr>"
  let ?st1 = "\<lparr>lfs = [], config = Some example_config, mounted = True\<rparr>"
  have o: "is_open ?h" "fs_impl ?h = Some 7" "is_open ?d" "fs_impl ?d = Some 7"
    by simp_all
  have e: "FatFSImpl_convert_fatfs_error fatfs_h 1 = ERROR_IO"
    "LittleFSImpl_convert_lfs_error littlefs_h (-5) = ERROR_IO"
    by (simp_all add: FatFSImpl_convert_fatfs_error_def LittleFSImpl_convert_lfs_error_def
        fatfs_h_def littlefs_h_def)
  have fat: "FatFSImpl_close fatfs_h sim_ff 7 ?h
      = (ERROR_IO, \<lparr>is_open = False, fs_impl = None,
                    native = \<lparr>fptr = 0, objsize = 2, script = []\<rparr>\<rparr>)"
    by (simp add: FatFSImpl_close_def sim_ff_calls sim_step_def next_status_simps e)
  have lfs: "LittleFSImpl_close littlefs_h ?L 7 ?st ?h
      = (ERROR_IO, ?st1, ?h\<lparr>is_open := False, fs_impl := None\<rparr>)"
    by (simp add: LittleFSImpl_close_def sim_lfs_calls next_status_simps e)
  show ?thesis
    using close_releases_handle [OF o, of littlefs_h ?L ?st ?st1 fatfs_h sim_ff] fat lfs
    by (simp add: Let_def)
qed

section \<open>The flash-log adapter without a configuration\<close>

text \<open>
  C2 as stated fails: on an adapter constructed with a null configuration, \<open>remove\<close>
  returns \<open>ERROR_NOT_MOUNTED\<close>, not \<open>ERROR_INVALID\<close>, and \<open>unmount\<close> returns \<open>OK\<close>.
\<close>

theorem null_config_counterexample:
  "fst (LittleFSImpl_remove littlefs_h (sim_lfs :: (int list, unit, unit) lfs_lib)
          (LittleFSImpl_ctor [] [] None) ''/test.txt'') = ERROR_NOT_MOUNTED
   \<and> fst (LittleFSImpl_unmount littlefs_h (sim_lfs :: (int list, unit, unit) lfs_lib)
          (LittleFSImpl_ctor [] [] None)) = OK"
  by (simp add: LittleFSImpl_remove_def LittleFSImpl_unmount_def LittleFSImpl_ctor_def)

text \<open>
  C2, amended. On an adapter constructed with a null configuration, whatever the memory
  of its \<^verbatim>\<open>lfs_\<close> member holds and whatever the library would do: \<open>mount\<close> returns
  \<open>ERROR_INVALID\<close> and leaves the adapter as constructed, hence unmounted; \<open>unmount\<close>
  returns \<open>OK\<close>; \<open>open\<close>, \<open>remove\<close>, \<open>rename\<close>, \<open>stat\<close>, \<open>mkdir\<close>, \<open>rmdir\<close>, \<open>opendir\<close> and
  the two space queries return \<open>ERROR_NOT_MOUNTED\<close>; \<open>read\<close> and \<open>write\<close> return
  \<open>ERROR_BAD_FILE\<close> on every handle this adapter does not own (and it can stamp none,
  since \<open>open\<close> hands the handle back untouched). None of these changes the adapter, a
  handle or an output, and the space queries do not reach the null dereference.
\<close>

theorem null_config_adapter:
  "(let st = LittleFSImpl_ctor raw zeroed None
    in LittleFSImpl_mount K L st = (ERROR_INVALID, st)
     \<and> \<not> mounted st
     \<and> LittleFSImpl_unmount K L st = (OK, st)
     \<and> LittleFSImpl_open K L this st h path mode = (ERROR_NOT_MOUNTED, st, h)
     \<and> LittleFSImpl_remove K L st path = (ERROR_NOT_MOUNTED, st)
     \<and> LittleFSImpl_rename K L st path new_path = (ERROR_NOT_MOUNTED, st)
     \<and> LittleFSImpl_stat K L st path info = (ERROR_NOT_MOUNTED, st, info)
     \<and> LittleFSImpl_mkdir K L st path = (ERROR_NOT_MOUNTED, st)
     \<and> LittleFSImpl_rmdir K L st path = (ERROR_NOT_MOUNTED, st)
     \<and> LittleFSImpl_opendir K L this st d path = (ERROR_NOT_MOUNTED, st, d)
     \<and> LittleFSImpl_get_free_space K L st free_bytes = Some (ERROR_NOT_MOUNTED, st, free_bytes)
     \<and> LittleFSImpl_get_total_space st total_bytes = Some (ERROR_NOT_MOUNTED, st, total_bytes)
     \<and> (fs_impl h \<noteq> Some this \<longrightarrow>
          LittleFSImpl_read K L this st h buf n br = (ERROR_BAD_FILE, st, h, buf, br)
        \<and> LittleFSImpl_write K L this st h buf n bw = (ERROR_BAD_FILE, st, h, bw)))"
proof -
  let ?st = "LittleFSImpl_ctor raw zeroed None"
  have u: "\<not> mounted ?st" and c: "config ?st = None"
    by (simp_all add: LittleFSImpl_ctor_def)
  have m: "LittleFSImpl_mount K L ?st = (ERROR_INVALID, ?st)"
    using u c by (simp add: LittleFSImpl_mount_def)
  have gated:
    "LittleFSImpl_unmount K L ?st = (OK, ?st)"
    "LittleFSImpl_open K L this ?st h path mode = (ERROR_NOT_MOUNTED, ?st, h)"
    "LittleFSImpl_remove K L ?st path = (ERROR_NOT_MOUNTED, ?st)"
    "LittleFSImpl_rename K L ?st path new_path = (ERROR_NOT_MOUNTED, ?st)"
    "LittleFSImpl_stat K L ?st path info = (ERROR_NOT_MOUNTED, ?st, info)"
    "LittleFSImpl_mkdir K L ?st path = (ERROR_NOT_MOUNTED, ?st)"
    "LittleFSImpl_rmdir K L ?st path = (ERROR_NOT_MOUNTED, ?st)"
    "LittleFSImpl_opendir K L this ?st d path = (ERROR_NOT_MOUNTED, ?st, d)"
    "LittleFSImpl_get_free_space K L ?st free_bytes = Some (ERROR_NOT_MOUNTED, ?st, free_bytes)"
    "LittleFSImpl_get_total_space ?st total_bytes = Some (ERROR_NOT_MOUNTED, ?st, total_bytes)"
    using u
    by (simp_all add: LittleFSImpl_unmount_def LittleFSImpl_open_def LittleFSImpl_remove_def
        LittleFSImpl_rename_def LittleFSImpl_stat_def LittleFSImpl_mkdir_def
        LittleFSImpl_rmdir_def LittleFSImpl_opendir_def LittleFSImpl_get_free_space_def
        LittleFSImpl_get_total_space_def)
  have rw: "LittleFSImpl_read K L this ?st h buf n br = (ERROR_BAD_FILE, ?st, h, buf, br)
      \<and> LittleFSImpl_write K L this ?st h buf n bw = (ERROR_BAD_FILE, ?st, h, bw)"
    if "fs_impl h \<noteq> Some this"
    using that LittleFSImpl_file_ops_bad_handle(2,3) [of h this] by blast
  show ?thesis
    unfolding Let_def using u m gated rw by blast
qed

theorem null_config_adapter_witness:
  "(let L = (sim_lfs :: (int list, unit, unit) lfs_lib);
        st = LittleFSImpl_ctor [-5] [] None;
        h = (Handle_ctor () :: unit FileHandle)
    in fs_impl h \<noteq> Some 1
     \<and> LittleFSImpl_mount littlefs_h L st = (ERROR_INVALID, st)
     \<and> LittleFSImpl_open littlefs_h L 1 st h ''/test.txt'' (WRITE OR CREATE)
         = (ERROR_NOT_MOUNTED, st, h)
     \<and> LittleFSImpl_read littlefs_h L 1 st h [] 4 0 = (ERROR_BAD_FILE, st, h, [], 0)
     \<and> LittleFSImpl_get_total_space st 0 = Some (ERROR_NOT_MOUNTED, st, 0))"
proof -
  have a: "fs_impl (Handle_ctor () :: unit FileHandle) \<noteq> Some 1"
    by (simp add: Handle_ctor_def)
  show ?thesis
    using a null_config_adapter [where K = littlefs_h
        and L = "sim_lfs :: (int list, unit, unit) lfs_lib" and raw = "[-5]" and zeroed = "[]"
        and this = 1 and h = "Handle_ctor ()" and path = "''/test.txt''"
        and mode = "WRITE OR CREATE" and total_bytes = 0 and buf = "[]" and n = 4 and br = 0]
    by (simp add: Let_def)
qed

section \<open>Seeking and truncating on the FAT adapter\<close>

lemma uint_minus_negative:
  fixes x :: "32 word"
  assumes "sint x < 0"
  shows "uint (- x) = - sint x"
proof -
  have "- x = word_of_int (- sint x)" by simp
  then have "uint (- x) = (- sint x) mod 2 ^ 32"
    by (simp only: uint_word_of_int) simp
  moreover have "- sint x < 2 ^ 32"
    using sint_ge [of x] by simp
  ultimately show ?thesis using assms by simp
qed

lemma seek_new_pos_CUR:
  assumes "sint offset \<noteq> - (2 ^ 31)"
  shows "FatFSImpl_seek_new_pos current_pos file_size offset CUR
     = Inr (word_of_int (seek_target_as_specified (uint current_pos) (sint offset)))"
proof (cases "0 \<le> sint offset")
  case True
  moreover have "0 \<le> uint current_pos" by simp
  ultimately have "\<not> uint current_pos + sint offset < 0" by linarith
  with True show ?thesis
    by (simp add: FatFSImpl_seek_new_pos_def seek_target_as_specified_def SET_def CUR_def)
next
  case False
  then have n: "sint offset < 0" by simp
  have le: "- offset \<le> current_pos \<longleftrightarrow> 0 \<le> uint current_pos + sint offset"
    unfolding word_le_def uint_minus_negative [OF n] by linarith
  show ?thesis
    using False assms
    by (simp add: FatFSImpl_seek_new_pos_def seek_target_as_specified_def SET_def CUR_def le
        Let_def)
qed

lemma seek_new_pos_END:
  assumes "sint offset \<noteq> - (2 ^ 31)"
  shows "FatFSImpl_seek_new_pos current_pos file_size offset END
     = Inr (word_of_int (seek_target_as_specified (uint file_size) (sint offset)))"
proof (cases "0 \<le> sint offset")
  case True
  moreover have "0 \<le> uint file_size" by simp
  ultimately have "\<not> uint file_size + sint offset < 0" by linarith
  with True show ?thesis
    by (simp add: FatFSImpl_seek_new_pos_def seek_target_as_specified_def SET_def CUR_def
        END_def)
next
  case False
  then have n: "sint offset < 0" by simp
  have le: "- offset \<le> file_size \<longleftrightarrow> 0 \<le> uint file_size + sint offset"
    unfolding word_le_def uint_minus_negative [OF n] by linarith
  show ?thesis
    using False assms
    by (simp add: FatFSImpl_seek_new_pos_def seek_target_as_specified_def SET_def CUR_def
        END_def le Let_def)
qed

lemma seek_new_pos_SET_negative:
  "sint offset < 0 \<Longrightarrow> FatFSImpl_seek_new_pos current_pos file_size offset SET = Inr 0"
  by (simp add: FatFSImpl_seek_new_pos_def)

lemma seek_target_as_specified_nonneg: "0 \<le> seek_target_as_specified base offset"
  by (simp add: seek_target_as_specified_def)

lemma sim_ff_seek_ok:
  "f_lseek sim_ff \<lparr>fptr = p, objsize = n, script = []\<rparr> q
     = (0, \<lparr>fptr = q, objsize = max n q, script = []\<rparr>)"
  by (simp add: sim_ff_calls sim_step_def next_status_simps)

lemma fatfs_h_OK: "FatFSImpl_convert_fatfs_error fatfs_h 0 = OK"
  by (simp add: FatFSImpl_convert_fatfs_error_def fatfs_h_def)

text \<open>
  C5 as stated fails, in two places. From position 4294967280 the offset 32 gives the sum
  4294967312, and \<open>seek\<close> from the current position issues the native seek to 16: the
  sum has wrapped in the 32-bit \<^verbatim>\<open>FSIZE_t\<close>. With the least \<^verbatim>\<open>int32_t\<close> as offset,
  \<open>seek\<close> from the current position negates it, which is undefined.
\<close>

theorem fat_seek_wraps_counterexample:
  "FatFSImpl_seek fatfs_h sim_ff 7
     \<lparr>is_open = True, fs_impl = Some 7,
      native = \<lparr>fptr = 4294967280, objsize = 4294967280, script = []\<rparr>\<rparr> 32 CUR
   = Some (OK, \<lparr>is_open = True, fs_impl = Some 7,
                native = \<lparr>fptr = 16, objsize = 4294967280, script = []\<rparr>\<rparr>)
   \<and> FatFSImpl_seek fatfs_h sim_ff 7
     \<lparr>is_open = True, fs_impl = Some 7,
      native = \<lparr>fptr = 5, objsize = 10, script = []\<rparr>\<rparr> (- 2147483648) CUR
   = None"
proof -
  have s: "sint (32 :: 32 word) = 32" "sint (- 2147483648 :: 32 word) = - 2147483648"
    by simp_all
  have w: "(4294967312 :: 32 word) = 16" by simp
  have m: "max (4294967280 :: 32 word) 16 = 4294967280" by simp
  show ?thesis
    by (simp add: FatFSImpl_seek_def FatFSImpl_seek_new_pos_def SET_def CUR_def s w m
        sim_ff_calls(4,5) sim_ff_seek_ok fatfs_h_OK)
qed

text \<open>
  C5, amended. On an open handle owned by the adapter, for every offset but the least
  \<^verbatim>\<open>int32_t\<close>: \<open>seek\<close> from the current position and from the end issue one native
  absolute seek, to the queried position, respectively the queried size, plus the signed
  offset, with 0 in place of a negative sum, reduced modulo \<open>2 ^ 32\<close>; the status of the
  native seek is translated and returned, so a negative sum is never an error of its own.
  The target is exactly the clamped sum whenever that is below \<open>2 ^ 32\<close>.
\<close>

theorem fat_seek_cur_end_clamped:
  assumes "is_open h" and "fs_impl h = Some this" and "sint offset \<noteq> - (2 ^ 31)"
  shows "FatFSImpl_seek K L this h offset CUR =
           Some (case f_lseek L (native h)
                   (word_of_int (seek_target_as_specified (uint (f_tell L (native h)))
                      (sint offset))) of
              (res, f1) \<Rightarrow> (FatFSImpl_convert_fatfs_error K res, h\<lparr>native := f1\<rparr>))
       \<and> FatFSImpl_seek K L this h offset END =
           Some (case f_lseek L (native h)
                   (word_of_int (seek_target_as_specified (uint (f_size L (native h)))
                      (sint offset))) of
              (res, f1) \<Rightarrow> (FatFSImpl_convert_fatfs_error K res, h\<lparr>native := f1\<rparr>))
       \<and> uint (word_of_int (seek_target_as_specified (uint (base :: FSIZE_t)) (sint offset))
                :: FSIZE_t)
           = seek_target_as_specified (uint base) (sint offset) mod 2 ^ 32
       \<and> (seek_target_as_specified (uint base) (sint offset) < 2 ^ 32 \<longrightarrow>
            uint (word_of_int (seek_target_as_specified (uint base) (sint offset)) :: FSIZE_t)
              = seek_target_as_specified (uint base) (sint offset))"
proof -
  have cur: "FatFSImpl_seek K L this h offset CUR =
           Some (case f_lseek L (native h)
                   (word_of_int (seek_target_as_specified (uint (f_tell L (native h)))
                      (sint offset))) of
              (res, f1) \<Rightarrow> (FatFSImpl_convert_fatfs_error K res, h\<lparr>native := f1\<rparr>))"
    using assms(1,2)
    by (simp add: FatFSImpl_seek_def seek_new_pos_CUR [OF assms(3)] split: prod.splits)
  have end_: "FatFSImpl_seek K L this h offset END =
           Some (case f_lseek L (native h)
                   (word_of_int (seek_target_as_specified (uint (f_size L (native h)))
                      (sint offset))) of
              (res, f1) \<Rightarrow> (FatFSImpl_convert_fatfs_error K res, h\<lparr>native := f1\<rparr>))"
    using assms(1,2)
    by (simp add: FatFSImpl_seek_def seek_new_pos_END [OF assms(3)] split: prod.splits)
  let ?t = "seek_target_as_specified (uint base) (sint offset)"
  have wrap: "uint (word_of_int ?t :: FSIZE_t) = ?t mod 2 ^ 32"
    by (simp only: uint_word_of_int) simp
  have exact: "uint (word_of_int ?t :: FSIZE_t) = ?t" if "?t < 2 ^ 32"
    using that seek_target_as_specified_nonneg [of "uint base" "sint offset"]
    by (simp only: wrap) simp
  from cur end_ wrap exact show ?thesis by blast
qed

text \<open>
  The simulated file at position 5 of 10 bytes: 7 back from the current position lands
  on 0, 3 back from the end on 7, and both seeks succeed.
\<close>

theorem fat_seek_cur_end_clamped_witness:
  "(let h = \<lparr>is_open = True, fs_impl = Some 7,
             native = \<lparr>fptr = 5, objsize = 10, script = []\<rparr>\<rparr>
    in is_open h \<and> fs_impl h = Some 7
     \<and> sint (- 7 :: 32 word) \<noteq> - (2 ^ 31) \<and> sint (- 3 :: 32 word) \<noteq> - (2 ^ 31)
     \<and> seek_target_as_specified (uint (5 :: 32 word)) (sint (- 7 :: 32 word)) < 2 ^ 32
     \<and> FatFSImpl_seek fatfs_h sim_ff 7 h (- 7) CUR
         = Some (OK, h\<lparr>native := \<lparr>fptr = 0, objsize = 10, script = []\<rparr>\<rparr>)
     \<and> FatFSImpl_seek fatfs_h sim_ff 7 h (- 3) END
         = Some (OK, h\<lparr>native := \<lparr>fptr = 7, objsize = 10, script = []\<rparr>\<rparr>))"
proof -
  let ?h = "\<lparr>is_open = True, fs_impl = Some 7,
             native = \<lparr>fptr = 5, objsize = 10, script = []\<rparr>\<rparr>"
  have o: "is_open ?h" "fs_impl ?h = Some 7" by simp_all
  have s: "sint (- 7 :: 32 word) = - 7" "sint (- 3 :: 32 word) = - 3" by simp_all
  have n7: "sint (- 7 :: 32 word) \<noteq> - (2 ^ 31)" and n3: "sint (- 3 :: 32 word) \<noteq> - (2 ^ 31)"
    by (simp_all add: s)
  have t: "seek_target_as_specified 5 (- 7) = 0" "seek_target_as_specified 10 (- 3) = 7"
    by (simp_all add: seek_target_as_specified_def)
  have m: "max (10 :: 32 word) 0 = 10" "max (10 :: 32 word) 7 = 10" by simp_all
  show ?thesis
    using n7 n3 fat_seek_cur_end_clamped [OF o n7, of fatfs_h sim_ff 5]
      fat_seek_cur_end_clamped [OF o n3, of fatfs_h sim_ff 10]
    by (simp add: Let_def s t m sim_ff_calls(4,5) sim_ff_seek_ok fatfs_h_OK)
qed

text \<open>
  C10. On an open handle owned by the adapter, \<open>seek\<close> from the start with a negative
  offset issues the native seek to position 0 and returns its translated status.
\<close>

theorem fat_seek_set_negative_clamped:
  assumes "is_open h" and "fs_impl h = Some this" and "sint offset < 0"
  shows "FatFSImpl_seek K L this h offset SET =
           Some (case f_lseek L (native h) 0 of
              (res, f1) \<Rightarrow> (FatFSImpl_convert_fatfs_error K res, h\<lparr>native := f1\<rparr>))"
  using assms
  by (simp add: FatFSImpl_seek_def seek_new_pos_SET_negative split: prod.splits)

theorem fat_seek_set_negative_clamped_witness:
  "(let h = \<lparr>is_open = True, fs_impl = Some 7,
             native = \<lparr>fptr = 5, objsize = 10, script = []\<rparr>\<rparr>
    in is_open h \<and> fs_impl h = Some 7 \<and> sint (- 4 :: 32 word) < 0
     \<and> FatFSImpl_seek fatfs_h sim_ff 7 h (- 4) SET
         = Some (OK, h\<lparr>native := \<lparr>fptr = 0, objsize = 10, script = []\<rparr>\<rparr>))"
proof -
  let ?h = "\<lparr>is_open = True, fs_impl = Some 7,
             native = \<lparr>fptr = 5, objsize = 10, script = []\<rparr>\<rparr>"
  have o: "is_open ?h" "fs_impl ?h = Some 7" by simp_all
  have n: "sint (- 4 :: 32 word) < 0" by simp
  have m: "max (10 :: 32 word) 0 = 10" by simp
  show ?thesis
    using n fat_seek_set_negative_clamped [OF o n, of fatfs_h sim_ff]
    by (simp add: Let_def m sim_ff_seek_ok fatfs_h_OK)
qed

text \<open>
  C6. On an open handle owned by the adapter, \<open>truncate\<close> to \<open>sz\<close> reads the current
  position, seeks to \<open>sz\<close> and, if that fails, returns the translated failure with the
  native file as the seek left it; otherwise it calls the native truncate and, if that
  fails, returns the translated failure with the native file as the truncate left it;
  otherwise it returns \<open>OK\<close>, after one more native seek back to the saved position
  exactly when the saved position is at most \<open>sz\<close>.
\<close>

theorem fat_truncate_sequence:
  assumes "is_open h" and "fs_impl h = Some this"
  shows "FatFSImpl_truncate K L this h sz =
           (let saved = f_tell L (native h);
                (r1, f1) = f_lseek L (native h) sz;
                (r2, f2) = f_truncate L f1;
                (r3, f3) = f_lseek L f2 saved
            in if r1 \<noteq> FR_OK K then (FatFSImpl_convert_fatfs_error K r1, h\<lparr>native := f1\<rparr>)
               else if r2 \<noteq> FR_OK K then (FatFSImpl_convert_fatfs_error K r2, h\<lparr>native := f2\<rparr>)
               else if saved \<le> sz then (OK, h\<lparr>native := f3\<rparr>)
               else (OK, h\<lparr>native := f2\<rparr>))"
  using assms by (simp add: FatFSImpl_truncate_def Let_def split: prod.splits)

text \<open>
  The simulated file of 10 bytes. From position 5, truncating to 3 leaves the position at
  3; from position 2 it is restored to 2; a failing seek (\<open>FR_DISK_ERR\<close>) leaves the size
  at 10; a failing truncate (\<open>FR_DENIED\<close>) leaves the position at the truncation point.
\<close>

theorem fat_truncate_sequence_witness:
  "(let file = (\<lambda>p n s. \<lparr>is_open = True, fs_impl = Some 7,
                         native = \<lparr>fptr = p, objsize = n, script = s\<rparr>\<rparr>)
    in is_open (file 5 10 []) \<and> fs_impl (file 5 10 []) = Some 7
     \<and> FatFSImpl_truncate fatfs_h sim_ff 7 (file 5 10 []) 3 = (OK, file 3 3 [])
     \<and> FatFSImpl_truncate fatfs_h sim_ff 7 (file 2 10 []) 3 = (OK, file 2 3 [])
     \<and> FatFSImpl_truncate fatfs_h sim_ff 7 (file 5 10 [1]) 3 = (ERROR_IO, file 5 10 [])
     \<and> FatFSImpl_truncate fatfs_h sim_ff 7 (file 5 10 [0, 7]) 3 = (ERROR_INVALID, file 3 10 []))"
proof -
  let ?file = "\<lambda>p n s. \<lparr>is_open = True, fs_impl = Some 7,
                         native = \<lparr>fptr = p, objsize = n, script = s\<rparr>\<rparr>"
  have o: "is_open (?file p n s)" "fs_impl (?file p n s) = Some 7" for p n s
    by simp_all
  have e: "FatFSImpl_convert_fatfs_error fatfs_h 1 = ERROR_IO"
    "FatFSImpl_convert_fatfs_error fatfs_h 7 = ERROR_INVALID"
    by (simp_all add: FatFSImpl_convert_fatfs_error_def fatfs_h_def)
  show ?thesis
    by (simp add: Let_def fat_truncate_sequence [OF o, of fatfs_h sim_ff] e fatfs_h_values
        sim_ff_calls sim_step_def next_status_simps)
qed

end
